theory Spec2Isabelle
  imports Main "HOL-Library.Word"
begin

unbundle bit_operations_syntax

section \<open>Values of the Go standard library that package shutil handles\<close>

text \<open>
  Package \<open>shutil\<close> (file \<open>shutil.go\<close>) is written against \<open>os\<close>, \<open>io\<close>, \<open>fmt\<close> and
  \<open>path/filepath\<close>. This section fixes the values those packages exchange with it:
  paths, \<open>os.FileMode\<close>, \<open>os.FileInfo\<close>, and the error values.
\<close>

type_synonym path = string
type_synonym FileMode = "32 word"
type_synonym int64 = "64 word"
type_synonym uintptr = "64 word"
type_synonym errno = nat

text \<open>\<open>os.FileMode\<close> bits (\<open>io/fs\<close>): the type of the entry is a bit above the nine
  permission bits.\<close>

definition ModeDir :: FileMode where "ModeDir = 0x80000000"
definition ModeSymlink :: FileMode where "ModeSymlink = 0x8000000"
definition ModeNamedPipe :: FileMode where "ModeNamedPipe = 0x2000000"
definition ModeSetuid :: FileMode where "ModeSetuid = 0x800000"
definition ModeSetgid :: FileMode where "ModeSetgid = 0x400000"
definition ModeSticky :: FileMode where "ModeSticky = 0x100000"
definition ModePerm :: FileMode where "ModePerm = 0x1FF"

definition IsDir :: "FileMode \<Rightarrow> bool" where
  "IsDir m = (m AND ModeDir \<noteq> 0)"

text \<open>\<open>syscall.Errno\<close> values (Linux).\<close>

abbreviation (input) ENOENT :: errno where "ENOENT \<equiv> 2"
abbreviation (input) EBADF :: errno where "EBADF \<equiv> 9"
abbreviation (input) EACCES :: errno where "EACCES \<equiv> 13"
abbreviation (input) EEXIST :: errno where "EEXIST \<equiv> 17"
abbreviation (input) ENOTDIR :: errno where "ENOTDIR \<equiv> 20"
abbreviation (input) EISDIR :: errno where "EISDIR \<equiv> 21"
abbreviation (input) EINVAL :: errno where "EINVAL \<equiv> 22"
abbreviation (input) ENOTTY :: errno where "ENOTTY \<equiv> 25"
abbreviation (input) ELOOP :: errno where "ELOOP \<equiv> 40"

text \<open>An \<open>os.FileInfo\<close>: what \<open>Name()\<close>, \<open>Size()\<close> and \<open>Mode()\<close> return, and the device
  and inode numbers that \<open>os.SameFile\<close> compares. A nil \<open>FileInfo\<close> is \<open>None\<close> of
  \<open>fileinfo option\<close>.\<close>

record fileinfo =
  Name :: string
  Size :: int64
  Mode :: FileMode
  Dev :: nat
  Ino :: nat

text \<open>Go's \<open>error\<close> values: the two error types of \<open>shutil.go\<close> (lines 11-27), the
  error built by \<open>fmt.Errorf\<close>, and the errors of package \<open>os\<close> (\<open>*PathError\<close> with
  its operation, path and errno; \<open>*LinkError\<close>; a bare \<open>syscall.Errno\<close>). The nil error
  is \<open>None\<close> of \<open>error option\<close>.\<close>

datatype error =
    SameFileError path path
  | SpecialFileError path fileinfo
  | ErrorString string
  | PathError string path errno
  | LinkError string path path errno
  | Errno errno

text \<open>\<open>os.IsNotExist\<close>: the error, unwrapped from a \<open>PathError\<close> or a \<open>LinkError\<close>, is
  \<open>ENOENT\<close>.\<close>

fun underlyingError :: "error \<Rightarrow> error" where
  "underlyingError (PathError opn p e) = Errno e"
| "underlyingError (LinkError opn p q e) = Errno e"
| "underlyingError err = err"

definition IsNotExist :: "error \<Rightarrow> bool" where
  "IsNotExist err = (underlyingError err = Errno ENOENT)"

text \<open>\<open>os.SameFile\<close>: false when either \<open>FileInfo\<close> is nil, else the device and inode
  numbers agree.\<close>

fun SameFile :: "fileinfo option \<Rightarrow> fileinfo option \<Rightarrow> bool" where
  "SameFile (Some fi1) (Some fi2) = (Dev fi1 = Dev fi2 \<and> Ino fi1 = Ino fi2)"
| "SameFile a b = False"

text \<open>The verb \<open>%d\<close> of package \<open>fmt\<close> on an \<open>int64\<close>: the decimal digits, after a minus
  sign for a negative number.\<close>

fun digits :: "nat \<Rightarrow> string" where
  "digits n = (if n < 10 then [''0123456789'' ! n]
     else digits (n div 10) @ [''0123456789'' ! (n mod 10)])"

declare digits.simps [simp del]

definition fmt_d :: "int64 \<Rightarrow> string" where
  "fmt_d n = (if sint n < 0 then CHR ''-'' # digits (nat (- sint n)) else digits (nat (sint n)))"

subsection \<open>\<open>filepath.Base\<close> and \<open>filepath.Join\<close> (Unix)\<close>

text \<open>\<open>Base\<close> returns the last element of the path, after removing trailing slashes;
  \<open>"."\<close> for the empty path and \<open>"/"\<close> for a path of slashes only.\<close>

definition is_sep :: "char \<Rightarrow> bool" where
  "is_sep c = (c = CHR ''/'')"

definition strip_seps :: "path \<Rightarrow> path" where
  "strip_seps p = rev (dropWhile is_sep (rev p))"

definition last_elem :: "path \<Rightarrow> path" where
  "last_elem p = rev (takeWhile (\<lambda>c. \<not> is_sep c) (rev p))"

definition Base :: "path \<Rightarrow> path" where
  "Base p = (if p = [] then ''.''
     else let q = last_elem (strip_seps p) in if q = [] then ''/'' else q)"

text \<open>\<open>Clean\<close> works on the elements between slashes: it drops empty elements and
  \<open>"."\<close>, lets \<open>".."\<close> cancel the element before it (at the root it is dropped, at the
  start of a relative path it is kept), and returns \<open>"."\<close> for an empty result.\<close>

fun split_path :: "path \<Rightarrow> path \<Rightarrow> path list" where
  "split_path [] cur = [rev cur]"
| "split_path (c # cs) cur = (if is_sep c then rev cur # split_path cs [] else split_path cs (c # cur))"

fun clean_elems :: "bool \<Rightarrow> path list \<Rightarrow> path list \<Rightarrow> path list" where
  "clean_elems rooted [] acc = rev acc"
| "clean_elems rooted (e # es) acc =
     (if e = [] \<or> e = ''.'' then clean_elems rooted es acc
      else if e = ''..'' then
        (case acc of
           [] \<Rightarrow> if rooted then clean_elems rooted es [] else clean_elems rooted es [e]
         | a # as \<Rightarrow> if a = ''..'' then clean_elems rooted es (e # acc) else clean_elems rooted es as)
      else clean_elems rooted es (e # acc))"

fun join_elems :: "path list \<Rightarrow> path" where
  "join_elems [] = []"
| "join_elems [e] = e"
| "join_elems (e # es) = e @ ''/'' @ join_elems es"

definition Clean :: "path \<Rightarrow> path" where
  "Clean p =
     (let rooted = (p \<noteq> [] \<and> is_sep (hd p));
          out = join_elems (clean_elems rooted (split_path p []) [])
      in if rooted then CHR ''/'' # out else if out = [] then ''.'' else out)"

text \<open>\<open>Join(a, b)\<close>: the non-empty arguments, joined by a slash and cleaned; the empty
  string when both are empty.\<close>

definition Join :: "path \<Rightarrow> path \<Rightarrow> path" where
  "Join a b = (if a = [] \<and> b = [] then [] else if a = [] then Clean b else Clean (a @ ''/'' @ b))"

section \<open>The operating system, as package shutil sees it\<close>

text \<open>
  The functions of \<open>shutil.go\<close> reach the file system only through calls of the
  standard library. The model takes the operating system as a parameter: a record of
  what each call does to a world of type \<open>'w\<close>, with open files of type \<open>'h\<close>. A metadata
  query (\<open>Stat\<close>, \<open>Lstat\<close>, \<open>Readlink\<close>) reads the world and leaves it as it is; every
  other call returns the world it leaves behind. Nothing else is assumed of the record,
  so that a theorem about all records holds whatever the calls return.
\<close>

record ('w, 'h) opsys =
  sys_stat :: "path \<Rightarrow> 'w \<Rightarrow> error + fileinfo"
  sys_lstat :: "path \<Rightarrow> 'w \<Rightarrow> error + fileinfo"
  sys_readlink :: "path \<Rightarrow> 'w \<Rightarrow> error + path"
  sys_symlink :: "path \<Rightarrow> path \<Rightarrow> 'w \<Rightarrow> error option \<times> 'w"
  sys_open :: "path \<Rightarrow> 'w \<Rightarrow> (error + 'h) \<times> 'w"
  sys_create :: "path \<Rightarrow> 'w \<Rightarrow> (error + 'h) \<times> 'w"
  sys_copy :: "'h \<Rightarrow> 'h \<Rightarrow> 'w \<Rightarrow> (int64 \<times> error option) \<times> 'w"
  sys_close :: "'h \<Rightarrow> 'w \<Rightarrow> error option \<times> 'w"
  sys_chmod :: "path \<Rightarrow> FileMode \<Rightarrow> 'w \<Rightarrow> error option \<times> 'w"
  sys_ioctl :: "'h \<Rightarrow> uintptr \<Rightarrow> 'h \<Rightarrow> 'w \<Rightarrow> errno \<times> 'w"

text \<open>A run of a function is observed through the calls it makes, in order: the state
  threaded through the program is the world together with the calls made so far.\<close>

datatype 'h call =
    StatCall path
  | LstatCall path
  | ReadlinkCall path
  | SymlinkCall path path
  | OpenCall path
  | CreateCall path
  | CopyCall 'h 'h
  | CloseCall 'h
  | ChmodCall path FileMode
  | IoctlCall 'h uintptr 'h

type_synonym ('w, 'h) state = "'w \<times> 'h call list"

definition world :: "('w, 'h) state \<Rightarrow> 'w" where
  "world s = fst s"

definition calls :: "('w, 'h) state \<Rightarrow> 'h call list" where
  "calls s = snd s"

definition os_Stat :: "('w, 'h) opsys \<Rightarrow> path \<Rightarrow> ('w, 'h) state \<Rightarrow> (error + fileinfo) \<times> ('w, 'h) state" where
  "os_Stat sys name s = (sys_stat sys name (fst s), (fst s, snd s @ [StatCall name]))"

definition os_Lstat :: "('w, 'h) opsys \<Rightarrow> path \<Rightarrow> ('w, 'h) state \<Rightarrow> (error + fileinfo) \<times> ('w, 'h) state" where
  "os_Lstat sys name s = (sys_lstat sys name (fst s), (fst s, snd s @ [LstatCall name]))"

definition os_Readlink :: "('w, 'h) opsys \<Rightarrow> path \<Rightarrow> ('w, 'h) state \<Rightarrow> (error + path) \<times> ('w, 'h) state" where
  "os_Readlink sys name s = (sys_readlink sys name (fst s), (fst s, snd s @ [ReadlinkCall name]))"

definition os_Symlink :: "('w, 'h) opsys \<Rightarrow> path \<Rightarrow> path \<Rightarrow> ('w, 'h) state \<Rightarrow> error option \<times> ('w, 'h) state" where
  "os_Symlink sys oldname newname s =
     (case sys_symlink sys oldname newname (fst s) of
        (err, w) \<Rightarrow> (err, (w, snd s @ [SymlinkCall oldname newname])))"

definition os_Open :: "('w, 'h) opsys \<Rightarrow> path \<Rightarrow> ('w, 'h) state \<Rightarrow> (error + 'h) \<times> ('w, 'h) state" where
  "os_Open sys name s =
     (case sys_open sys name (fst s) of (r, w) \<Rightarrow> (r, (w, snd s @ [OpenCall name])))"

definition os_Create :: "('w, 'h) opsys \<Rightarrow> path \<Rightarrow> ('w, 'h) state \<Rightarrow> (error + 'h) \<times> ('w, 'h) state" where
  "os_Create sys name s =
     (case sys_create sys name (fst s) of (r, w) \<Rightarrow> (r, (w, snd s @ [CreateCall name])))"

definition io_Copy :: "('w, 'h) opsys \<Rightarrow> 'h \<Rightarrow> 'h \<Rightarrow> ('w, 'h) state \<Rightarrow> (int64 \<times> error option) \<times> ('w, 'h) state" where
  "io_Copy sys fdst fsrc s =
     (case sys_copy sys fdst fsrc (fst s) of (r, w) \<Rightarrow> (r, (w, snd s @ [CopyCall fdst fsrc])))"

text \<open>\<open>defer f.Close()\<close>: the call is made when the function returns, and its error is
  dropped.\<close>

definition file_Close :: "('w, 'h) opsys \<Rightarrow> 'h \<Rightarrow> ('w, 'h) state \<Rightarrow> ('w, 'h) state" where
  "file_Close sys f s = (snd (sys_close sys f (fst s)), snd s @ [CloseCall f])"

definition os_Chmod :: "('w, 'h) opsys \<Rightarrow> path \<Rightarrow> FileMode \<Rightarrow> ('w, 'h) state \<Rightarrow> error option \<times> ('w, 'h) state" where
  "os_Chmod sys name m s =
     (case sys_chmod sys name m (fst s) of (err, w) \<Rightarrow> (err, (w, snd s @ [ChmodCall name m])))"

definition syscall_ioctl :: "('w, 'h) opsys \<Rightarrow> 'h \<Rightarrow> uintptr \<Rightarrow> 'h \<Rightarrow> ('w, 'h) state \<Rightarrow> errno \<times> ('w, 'h) state" where
  "syscall_ioctl sys fd req arg s =
     (case sys_ioctl sys fd req arg (fst s) of (e, w) \<Rightarrow> (e, (w, snd s @ [IoctlCall fd req arg])))"

text \<open>\<open>v, _ := os.Stat(name)\<close>: the error is dropped and the \<open>FileInfo\<close> is nil when the
  call failed.\<close>

fun info_or_nil :: "error + fileinfo \<Rightarrow> fileinfo option" where
  "info_or_nil (Inl err) = None"
| "info_or_nil (Inr fi) = Some fi"

text \<open>How a Go function ends: it returns its results, or it panics.\<close>

datatype 'a exit = Returns 'a | Panics string

definition nil_dereference :: string where
  "nil_dereference = ''runtime error: invalid memory address or nil pointer dereference''"

section \<open>Package shutil\<close>

subsection \<open>\<open>shutil.go\<close>, lines 30-42: the classification of entries\<close>

definition samefile :: "('w, 'h) opsys \<Rightarrow> path \<Rightarrow> path \<Rightarrow> ('w, 'h) state \<Rightarrow> bool \<times> ('w, 'h) state" where
  "samefile sys src dst s =
     (case os_Stat sys src s of (r1, s1) \<Rightarrow>
      case os_Stat sys dst s1 of (r2, s2) \<Rightarrow>
        (SameFile (info_or_nil r1) (info_or_nil r2), s2))"

definition specialfile :: "fileinfo \<Rightarrow> bool" where
  "specialfile fi = (Mode fi AND ModeNamedPipe = ModeNamedPipe)"

definition IsSymlink :: "fileinfo \<Rightarrow> bool" where
  "IsSymlink fi = (Mode fi AND ModeSymlink = ModeSymlink)"

subsection \<open>\<open>shutil.go\<close>, lines 50-113: \<open>CopyFile\<close>\<close>

text \<open>Lines 90-112, the copy itself: open \<open>src\<close>, create \<open>dst\<close>, \<open>io.Copy\<close>, and the
  comparison of the bytes copied with \<open>srcStat.Size()\<close>. The deferred \<open>Close\<close> calls run
  on every return after their \<open>defer\<close>, the last deferred first.\<close>

definition size_error :: "path \<Rightarrow> int64 \<Rightarrow> int64 \<Rightarrow> error" where
  "size_error src n expected =
     ErrorString (src @ '': '' @ fmt_d n @ ''/'' @ fmt_d expected @ '' copied'')"

definition copy_data :: "('w, 'h) opsys \<Rightarrow> path \<Rightarrow> fileinfo \<Rightarrow> path \<Rightarrow> ('w, 'h) state \<Rightarrow> error option \<times> ('w, 'h) state" where
  "copy_data sys src srcStat dst s =
     (case os_Open sys src s of
        (Inl err, s1) \<Rightarrow> (Some err, s1)
      | (Inr fsrc, s1) \<Rightarrow>
          (case os_Create sys dst s1 of
             (Inl err, s2) \<Rightarrow> (Some err, file_Close sys fsrc s2)
           | (Inr fdst, s2) \<Rightarrow>
               (case io_Copy sys fdst fsrc s2 of
                  ((n, Some err), s3) \<Rightarrow> (Some err, file_Close sys fsrc (file_Close sys fdst s3))
                | ((n, None), s3) \<Rightarrow>
                    (if n \<noteq> Size srcStat then Some (size_error src n (Size srcStat)) else None,
                     file_Close sys fsrc (file_Close sys fdst s3)))))"

text \<open>Lines 73-88: the symbolic link made in place of a copy, and the link followed by
  \<open>Readlink\<close> and \<open>Stat\<close>.\<close>

definition copy_link_or_data :: "('w, 'h) opsys \<Rightarrow> path \<Rightarrow> fileinfo \<Rightarrow> path \<Rightarrow> bool \<Rightarrow> ('w, 'h) state \<Rightarrow> error option \<times> ('w, 'h) state" where
  "copy_link_or_data sys src srcStat dst followSymlinks s =
     (if \<not> followSymlinks \<and> IsSymlink srcStat then os_Symlink sys src dst s
      else if IsSymlink srcStat then
        (case os_Readlink sys src s of
           (Inl err, s1) \<Rightarrow> (Some err, s1)
         | (Inr src', s1) \<Rightarrow>
             (case os_Stat sys src' s1 of
                (Inl err, s2) \<Rightarrow> (Some err, s2)
              | (Inr srcStat', s2) \<Rightarrow> copy_data sys src' srcStat' dst s2))
      else copy_data sys src srcStat dst s)"

definition CopyFile :: "('w, 'h) opsys \<Rightarrow> path \<Rightarrow> path \<Rightarrow> bool \<Rightarrow> ('w, 'h) state \<Rightarrow> error option \<times> ('w, 'h) state" where
  "CopyFile sys src dst followSymlinks s =
     (case samefile sys src dst s of
        (True, s1) \<Rightarrow> (Some (SameFileError src dst), s1)
      | (False, s1) \<Rightarrow>
          (case os_Lstat sys src s1 of
             (Inl err, s2) \<Rightarrow> (Some err, s2)
           | (Inr srcStat, s2) \<Rightarrow>
               if specialfile srcStat then (Some (SpecialFileError src srcStat), s2)
               else
                 (case os_Stat sys dst s2 of
                    (Inl err, s3) \<Rightarrow>
                      if \<not> IsNotExist err then (Some err, s3)
                      else copy_link_or_data sys src srcStat dst followSymlinks s3
                  | (Inr dstStat, s3) \<Rightarrow>
                      if specialfile dstStat then (Some (SpecialFileError dst dstStat), s3)
                      else copy_link_or_data sys src srcStat dst followSymlinks s3)))"

subsection \<open>\<open>shutil.go\<close>, lines 122-142: \<open>CopyMode\<close>\<close>

text \<open>Line 139 drops the error of \<open>os.Stat\<close>; line 140 calls \<open>Mode()\<close> on its
  \<open>FileInfo\<close>, which panics on nil, before \<open>os.Chmod\<close> is entered.\<close>

definition CopyMode :: "('w, 'h) opsys \<Rightarrow> path \<Rightarrow> path \<Rightarrow> bool \<Rightarrow> ('w, 'h) state \<Rightarrow> error option exit \<times> ('w, 'h) state" where
  "CopyMode sys src dst followSymlinks s =
     (case os_Lstat sys src s of
        (Inl err, s1) \<Rightarrow> (Returns (Some err), s1)
      | (Inr srcStat, s1) \<Rightarrow>
          (case os_Lstat sys dst s1 of
             (Inl err, s2) \<Rightarrow> (Returns (Some err), s2)
           | (Inr dstStat, s2) \<Rightarrow>
               if \<not> followSymlinks \<and> IsSymlink srcStat \<and> IsSymlink dstStat then (Returns None, s2)
               else
                 (case os_Stat sys src s2 of (r, s3) \<Rightarrow>
                    (case info_or_nil r of
                       None \<Rightarrow> (Panics nil_dereference, s3)
                     | Some srcStat' \<Rightarrow>
                         (case os_Chmod sys dst (Mode srcStat') s3 of
                            (err, s4) \<Rightarrow> (Returns err, s4))))))"

subsection \<open>\<open>shutil.go\<close>, lines 154-176: \<open>Copy\<close>\<close>

text \<open>Lines 165-175: \<open>CopyFile\<close>, then \<open>CopyMode\<close>, on the destination settled by
  lines 155-163.\<close>

definition copy_file_and_mode :: "('w, 'h) opsys \<Rightarrow> path \<Rightarrow> path \<Rightarrow> bool \<Rightarrow> ('w, 'h) state \<Rightarrow> (path \<times> error option) exit \<times> ('w, 'h) state" where
  "copy_file_and_mode sys src dst followSymlinks s =
     (case CopyFile sys src dst followSymlinks s of
        (Some err, s1) \<Rightarrow> (Returns (dst, Some err), s1)
      | (None, s1) \<Rightarrow>
          (case CopyMode sys src dst followSymlinks s1 of
             (Panics msg, s2) \<Rightarrow> (Panics msg, s2)
           | (Returns (Some err), s2) \<Rightarrow> (Returns (dst, Some err), s2)
           | (Returns None, s2) \<Rightarrow> (Returns (dst, None), s2)))"

definition Copy :: "('w, 'h) opsys \<Rightarrow> path \<Rightarrow> path \<Rightarrow> bool \<Rightarrow> ('w, 'h) state \<Rightarrow> (path \<times> error option) exit \<times> ('w, 'h) state" where
  "Copy sys src dst followSymlinks s =
     (case os_Stat sys dst s of
        (Inr dstInfo, s1) \<Rightarrow>
          copy_file_and_mode sys src
            (if IsDir (Mode dstInfo) then Join dst (Base src) else dst) followSymlinks s1
      | (Inl err, s1) \<Rightarrow>
          (if \<not> IsNotExist err then (Returns (dst, Some err), s1)
           else copy_file_and_mode sys src dst followSymlinks s1))"

subsection \<open>The clone helper (build tag \<open>linux,cgo\<close>): \<open>clonefile\<close>\<close>

text \<open>\<open>BTRFS_IOC_CLONE\<close> is \<open>_IOW(0x94, 9, int)\<close>: direction 1 at bit 30, size 4 at bit 16,
  type \<open>0x94\<close> at bit 8 and number 9, that is \<open>0x40049409\<close>.\<close>

definition BtrfsIocClone :: uintptr where
  "BtrfsIocClone = 0x40049409"

definition clonefile :: "('w, 'h) opsys \<Rightarrow> 'h \<Rightarrow> 'h \<Rightarrow> ('w, 'h) state \<Rightarrow> (bool \<times> error option) \<times> ('w, 'h) state" where
  "clonefile sys fdst fsrc s =
     (case syscall_ioctl sys fdst BtrfsIocClone fsrc s of
        (e, s1) \<Rightarrow> if e \<noteq> 0 then ((False, Some (Errno e)), s1) else ((True, None), s1))"

section \<open>A file system in memory\<close>

text \<open>
  An instance of the operating system on which the functions can be run: a table from
  path names to entries. A name is looked up as it is written (a relative name is a
  name without a leading slash, relative to the working directory); only a symbolic
  link in the last element of a name is followed, its target being read relative to
  the directory of the link unless it starts with a slash; after 40 links the lookup
  fails with \<open>ELOOP\<close>, as on Linux. The caller owns every entry and is not the
  superuser: reading needs the owner's read bit and writing the owner's write bit.
\<close>

record node =
  n_ino :: nat
  n_mode :: FileMode
  n_size :: int64
  n_data :: "8 word list"
  n_target :: path

record memfs =
  entries :: "(path \<times> node) list"
  next_ino :: nat

datatype handle = Handle path

definition lookup :: "memfs \<Rightarrow> path \<Rightarrow> node option" where
  "lookup fs p = map_of (entries fs) p"

definition put :: "path \<Rightarrow> node \<Rightarrow> memfs \<Rightarrow> memfs" where
  "put p n fs = fs\<lparr>entries := (p, n) # entries fs\<rparr>"

definition is_link :: "node \<Rightarrow> bool" where
  "is_link n = (n_mode n AND ModeSymlink = ModeSymlink)"

definition dir_of :: "path \<Rightarrow> path" where
  "dir_of p = rev (dropWhile (\<lambda>c. \<not> is_sep c) (rev p))"

definition link_path :: "path \<Rightarrow> path \<Rightarrow> path" where
  "link_path p t = (if t \<noteq> [] \<and> is_sep (hd t) then t else dir_of p @ t)"

fun walk :: "memfs \<Rightarrow> nat \<Rightarrow> path \<Rightarrow> errno + path" where
  "walk fs 0 p =
     (case lookup fs p of
        Some n \<Rightarrow> if is_link n then Inl ELOOP else Inr p
      | None \<Rightarrow> Inr p)"
| "walk fs (Suc k) p =
     (case lookup fs p of
        Some n \<Rightarrow> if is_link n then walk fs k (link_path p (n_target n)) else Inr p
      | None \<Rightarrow> Inr p)"

definition info :: "path \<Rightarrow> node \<Rightarrow> fileinfo" where
  "info name n = \<lparr>Name = Base name, Size = n_size n, Mode = n_mode n, Dev = 1, Ino = n_ino n\<rparr>"

definition parent_ok :: "memfs \<Rightarrow> path \<Rightarrow> bool" where
  "parent_ok fs p =
     (let d = dir_of p in
      d = [] \<or> d = ''/'' \<or> (case lookup fs (butlast d) of Some n \<Rightarrow> IsDir (n_mode n) | None \<Rightarrow> False))"

definition mem_lstat :: "path \<Rightarrow> memfs \<Rightarrow> error + fileinfo" where
  "mem_lstat name fs =
     (case lookup fs name of
        None \<Rightarrow> Inl (PathError ''lstat'' name ENOENT)
      | Some n \<Rightarrow> Inr (info name n))"

definition mem_stat :: "path \<Rightarrow> memfs \<Rightarrow> error + fileinfo" where
  "mem_stat name fs =
     (case walk fs 40 name of
        Inl e \<Rightarrow> Inl (PathError ''stat'' name e)
      | Inr p \<Rightarrow>
          (case lookup fs p of
             None \<Rightarrow> Inl (PathError ''stat'' name ENOENT)
           | Some n \<Rightarrow> Inr (info name n)))"

definition mem_readlink :: "path \<Rightarrow> memfs \<Rightarrow> error + path" where
  "mem_readlink name fs =
     (case lookup fs name of
        None \<Rightarrow> Inl (PathError ''readlink'' name ENOENT)
      | Some n \<Rightarrow> if is_link n then Inr (n_target n) else Inl (PathError ''readlink'' name EINVAL))"

definition mem_symlink :: "path \<Rightarrow> path \<Rightarrow> memfs \<Rightarrow> error option \<times> memfs" where
  "mem_symlink oldname newname fs =
     (if lookup fs newname \<noteq> None then (Some (LinkError ''symlink'' oldname newname EEXIST), fs)
      else if \<not> parent_ok fs newname then (Some (LinkError ''symlink'' oldname newname ENOENT), fs)
      else (None,
        put newname
          \<lparr>n_ino = next_ino fs, n_mode = ModeSymlink OR ModePerm,
           n_size = of_nat (length oldname), n_data = [], n_target = oldname\<rparr>
          (fs\<lparr>next_ino := Suc (next_ino fs)\<rparr>)))"

definition mem_open :: "path \<Rightarrow> memfs \<Rightarrow> (error + handle) \<times> memfs" where
  "mem_open name fs =
     (case walk fs 40 name of
        Inl e \<Rightarrow> (Inl (PathError ''open'' name e), fs)
      | Inr p \<Rightarrow>
          (case lookup fs p of
             None \<Rightarrow> (Inl (PathError ''open'' name ENOENT), fs)
           | Some n \<Rightarrow>
               if n_mode n AND 0x100 = 0 then (Inl (PathError ''open'' name EACCES), fs)
               else (Inr (Handle p), fs)))"

text \<open>\<open>os.Create\<close> opens with \<open>O_RDWR|O_CREATE|O_TRUNC\<close> and mode \<open>0666\<close>; the umask is
  \<open>022\<close>.\<close>

definition fresh_node :: "memfs \<Rightarrow> node" where
  "fresh_node fs = \<lparr>n_ino = next_ino fs, n_mode = 0x1A4, n_size = 0, n_data = [], n_target = []\<rparr>"

definition mem_create :: "path \<Rightarrow> memfs \<Rightarrow> (error + handle) \<times> memfs" where
  "mem_create name fs =
     (case walk fs 40 name of
        Inl e \<Rightarrow> (Inl (PathError ''open'' name e), fs)
      | Inr p \<Rightarrow>
          (case lookup fs p of
             None \<Rightarrow>
               if \<not> parent_ok fs p then (Inl (PathError ''open'' name ENOENT), fs)
               else (Inr (Handle p), put p (fresh_node fs) (fs\<lparr>next_ino := Suc (next_ino fs)\<rparr>))
           | Some n \<Rightarrow>
               if IsDir (n_mode n) then (Inl (PathError ''open'' name EISDIR), fs)
               else if n_mode n AND 0x80 = 0 then (Inl (PathError ''open'' name EACCES), fs)
               else (Inr (Handle p), put p (n\<lparr>n_size := 0, n_data := []\<rparr>) fs)))"

text \<open>\<open>io.Copy\<close> reads the source to its end and writes what it read at the start of
  the destination; reading a directory fails with \<open>EISDIR\<close>.\<close>

definition mem_copy :: "handle \<Rightarrow> handle \<Rightarrow> memfs \<Rightarrow> (int64 \<times> error option) \<times> memfs" where
  "mem_copy fdst fsrc fs =
     (case (fdst, fsrc) of (Handle d, Handle s) \<Rightarrow>
        (case lookup fs s of
           None \<Rightarrow> ((0, Some (PathError ''read'' s EBADF)), fs)
         | Some ns \<Rightarrow>
             if IsDir (n_mode ns) then ((0, Some (PathError ''read'' s EISDIR)), fs)
             else
               (case lookup fs d of
                  None \<Rightarrow> ((0, Some (PathError ''write'' d EBADF)), fs)
                | Some nd \<Rightarrow>
                    (let bytes = n_data ns @ drop (length (n_data ns)) (n_data nd)
                     in ((of_nat (length (n_data ns)), None),
                         put d (nd\<lparr>n_size := of_nat (length bytes), n_data := bytes\<rparr>) fs)))))"

definition mem_close :: "handle \<Rightarrow> memfs \<Rightarrow> error option \<times> memfs" where
  "mem_close f fs = (None, fs)"

text \<open>\<open>os.Chmod\<close> follows a link and sets the permission, setuid, setgid and sticky
  bits; the type of the entry stays.\<close>

definition chmod_mask :: FileMode where
  "chmod_mask = ModePerm OR ModeSetuid OR ModeSetgid OR ModeSticky"

definition chmod_bits :: "FileMode \<Rightarrow> FileMode \<Rightarrow> FileMode" where
  "chmod_bits old m = (old AND NOT chmod_mask) OR (m AND chmod_mask)"

definition mem_chmod :: "path \<Rightarrow> FileMode \<Rightarrow> memfs \<Rightarrow> error option \<times> memfs" where
  "mem_chmod name m fs =
     (case walk fs 40 name of
        Inl e \<Rightarrow> (Some (PathError ''chmod'' name e), fs)
      | Inr p \<Rightarrow>
          (case lookup fs p of
             None \<Rightarrow> (Some (PathError ''chmod'' name ENOENT), fs)
           | Some n \<Rightarrow>
               (None, put p (n\<lparr>n_mode := chmod_bits (n_mode n) m\<rparr>) fs)))"

text \<open>The clone request succeeds on this file system: the destination gets the data
  of the source. Any other request is \<open>ENOTTY\<close>.\<close>

definition mem_ioctl :: "handle \<Rightarrow> uintptr \<Rightarrow> handle \<Rightarrow> memfs \<Rightarrow> errno \<times> memfs" where
  "mem_ioctl fd req arg fs =
     (case (fd, arg) of (Handle d, Handle s) \<Rightarrow>
        if req \<noteq> BtrfsIocClone then (ENOTTY, fs)
        else
          (case lookup fs s of
             None \<Rightarrow> (EBADF, fs)
           | Some ns \<Rightarrow>
               (case lookup fs d of
                  None \<Rightarrow> (EBADF, fs)
                | Some nd \<Rightarrow> (0, put d (nd\<lparr>n_size := n_size ns, n_data := n_data ns\<rparr>) fs))))"

definition memsys :: "(memfs, handle) opsys" where
  "memsys = \<lparr>sys_stat = mem_stat, sys_lstat = mem_lstat, sys_readlink = mem_readlink,
     sys_symlink = mem_symlink, sys_open = mem_open, sys_create = mem_create,
     sys_copy = mem_copy, sys_close = mem_close, sys_chmod = mem_chmod,
     sys_ioctl = mem_ioctl\<rparr>"

text \<open>Entries for the examples: a regular file with its permission bits and bytes, a
  directory, a named pipe, a symbolic link.\<close>

definition regular :: "nat \<Rightarrow> FileMode \<Rightarrow> 8 word list \<Rightarrow> node" where
  "regular i perm bytes =
     \<lparr>n_ino = i, n_mode = perm, n_size = of_nat (length bytes), n_data = bytes, n_target = []\<rparr>"

definition directory :: "nat \<Rightarrow> node" where
  "directory i = \<lparr>n_ino = i, n_mode = ModeDir OR 0x1ED, n_size = 4096, n_data = [], n_target = []\<rparr>"

definition fifo :: "nat \<Rightarrow> node" where
  "fifo i = \<lparr>n_ino = i, n_mode = ModeNamedPipe OR 0x1A4, n_size = 0, n_data = [], n_target = []\<rparr>"

definition symlink :: "nat \<Rightarrow> path \<Rightarrow> node" where
  "symlink i t =
     \<lparr>n_ino = i, n_mode = ModeSymlink OR ModePerm, n_size = of_nat (length t), n_data = [], n_target = t\<rparr>"

text \<open>A file that reports size 0 whatever it yields when read.\<close>

definition pseudo :: "nat \<Rightarrow> FileMode \<Rightarrow> 8 word list \<Rightarrow> node" where
  "pseudo i perm bytes = \<lparr>n_ino = i, n_mode = perm, n_size = 0, n_data = bytes, n_target = []\<rparr>"

subsection \<open>Two small worlds\<close>

text \<open>
  \<open>world_abs\<close>, named by absolute paths: a directory \<open>/a\<close> with a regular file \<open>t\<close>
  (mode \<open>0644\<close>, two bytes), a link \<open>s\<close> to it, a link \<open>dangling\<close> to a name that does
  not exist, a named pipe \<open>p\<close>, a link \<open>lp\<close> to the pipe, a read-only file \<open>ro\<close>, and a
  file \<open>v\<close> that reports size 0 and yields three bytes when read (as the files of
  \<open>/proc\<close> do); and an empty directory \<open>/b\<close>.
\<close>

definition world_abs :: memfs where
  "world_abs =
     \<lparr>entries =
        [(''/a'', directory 1),
         (''/a/t'', regular 2 0x1A4 [104, 105]),
         (''/a/s'', symlink 3 ''/a/t''),
         (''/a/dangling'', symlink 4 ''/a/missing''),
         (''/a/p'', fifo 5),
         (''/a/lp'', symlink 6 ''/a/p''),
         (''/a/ro'', regular 7 0x124 [111, 107]),
         (''/a/v'', pseudo 8 0x124 [1, 2, 3]),
         (''/b'', directory 9)],
      next_ino = 10\<rparr>"

text \<open>
  \<open>world_rel\<close>, named relative to the working directory: a regular file \<open>t\<close>, a link
  \<open>s\<close> whose target is the relative name \<open>t\<close>, and an empty directory \<open>d\<close>.
\<close>

definition world_rel :: memfs where
  "world_rel =
     \<lparr>entries =
        [(''t'', regular 1 0x1A4 [104, 105]),
         (''s'', symlink 2 ''t''),
         (''d'', directory 3)],
      next_ino = 4\<rparr>"

text \<open>The bytes read through a name, following links, as \<open>os.ReadFile\<close> would return
  them.\<close>

definition read_file :: "memfs \<Rightarrow> path \<Rightarrow> error + 8 word list" where
  "read_file fs name =
     (case walk fs 40 name of
        Inl e \<Rightarrow> Inl (PathError ''open'' name e)
      | Inr p \<Rightarrow>
          (case lookup fs p of
             None \<Rightarrow> Inl (PathError ''open'' name ENOENT)
           | Some n \<Rightarrow> Inr (n_data n)))"

text \<open>What the lookup of a name sees of an entry: the target of a link, and nothing
  of any other entry.\<close>

definition link_view :: "memfs \<Rightarrow> path \<Rightarrow> path option" where
  "link_view fs p =
     (case lookup fs p of
        Some n \<Rightarrow> if is_link n then Some (n_target n) else None
      | None \<Rightarrow> None)"

text \<open>The inode numbers in use are below the next free one.\<close>

definition inodes_ok :: "memfs \<Rightarrow> bool" where
  "inodes_ok fs = list_all (\<lambda>e. n_ino (snd e) < next_ino fs) (entries fs)"

text \<open>A call of \<open>ioctl\<close> in a list of calls.\<close>

fun is_ioctl :: "'h call \<Rightarrow> bool" where
  "is_ioctl (IoctlCall fd req arg) = True"
| "is_ioctl c = False"

section \<open>Properties\<close>

lemmas os_calls = os_Stat_def os_Lstat_def os_Readlink_def os_Symlink_def os_Open_def
  os_Create_def io_Copy_def file_Close_def os_Chmod_def syscall_ioctl_def

subsection \<open>\<open>CopyMode\<close>\<close>

text \<open>
  Claim C10. There is an input on which \<open>CopyMode\<close> neither succeeds nor returns an
  error: whenever both \<open>Lstat\<close> queries succeed, the shortcut for two symbolic links is
  not taken and the following query \<open>os.Stat(src)\<close> fails, the error of that query is
  dropped, its \<open>FileInfo\<close> is nil, and the call \<open>srcStat.Mode()\<close> panics before
  \<open>os.Chmod\<close> is entered. The calls made are the three queries and nothing else.
\<close>

theorem CopyMode_unhandled_stat_error:
  assumes "sys_lstat sys src (world s) = Inr srcStat"
      and "sys_lstat sys dst (world s) = Inr dstStat"
      and "\<not> (\<not> followSymlinks \<and> IsSymlink srcStat \<and> IsSymlink dstStat)"
      and "sys_stat sys src (world s) = Inl err"
  shows "CopyMode sys src dst followSymlinks s =
           (Panics nil_dereference, (world s, calls s @ [LstatCall src, LstatCall dst, StatCall src]))"
  using assms by (simp add: CopyMode_def os_calls world_def calls_def)

text \<open>The input of the claim: \<open>src\<close> is a dangling link and \<open>dst\<close> a regular file.\<close>

theorem CopyMode_unhandled_stat_error_witness:
  "sys_lstat memsys ''/a/dangling'' world_abs = Inr (info ''/a/dangling'' (symlink 4 ''/a/missing''))
   \<and> sys_lstat memsys ''/a/t'' world_abs = Inr (info ''/a/t'' (regular 2 0x1A4 [104, 105]))
   \<and> sys_stat memsys ''/a/dangling'' world_abs = Inl (PathError ''stat'' ''/a/dangling'' ENOENT)
   \<and> CopyMode memsys ''/a/dangling'' ''/a/t'' True (world_abs, []) =
       (Panics nil_dereference,
        (world_abs, [LstatCall ''/a/dangling'', LstatCall ''/a/t'', StatCall ''/a/dangling'']))"
proof -
  have h1: "sys_lstat memsys ''/a/dangling'' (world (world_abs, [])) =
      Inr (info ''/a/dangling'' (symlink 4 ''/a/missing''))"
    by code_simp
  have h2: "sys_lstat memsys ''/a/t'' (world (world_abs, [])) =
      Inr (info ''/a/t'' (regular 2 0x1A4 [104, 105]))"
    by code_simp
  have h3: "\<not> (\<not> True \<and> IsSymlink (info ''/a/dangling'' (symlink 4 ''/a/missing''))
      \<and> IsSymlink (info ''/a/t'' (regular 2 0x1A4 [104, 105])))"
    by simp
  have h4: "sys_stat memsys ''/a/dangling'' (world (world_abs, [])) =
      Inl (PathError ''stat'' ''/a/dangling'' ENOENT)"
    by code_simp
  show ?thesis
    using CopyMode_unhandled_stat_error [OF h1 h2 h3 h4] h1 h2 h4
    by (simp add: world_def calls_def)
qed

text \<open>
  Claim C3 says that every error of a metadata query inside \<open>CopyMode\<close> is returned
  to the caller. On a dangling link copied onto a regular file without following links,
  \<open>os.Stat(src)\<close> fails with \<open>ENOENT\<close> and \<open>CopyMode\<close> does not return that error: it
  panics.
\<close>

theorem CopyMode_swallows_stat_error:
  "sys_stat memsys ''/a/dangling'' world_abs = Inl (PathError ''stat'' ''/a/dangling'' ENOENT)
   \<and> fst (CopyMode memsys ''/a/dangling'' ''/a/t'' False (world_abs, [])) = Panics nil_dereference"
  by code_simp

text \<open>The other errors are returned as the claim says, on every operating system: the
  error of either \<open>Lstat\<close> query, and whatever \<open>os.Chmod\<close> returns.\<close>

lemma CopyMode_returned_errors:
  "(sys_lstat sys src (world s) = Inl err \<longrightarrow>
      CopyMode sys src dst followSymlinks s = (Returns (Some err), (world s, calls s @ [LstatCall src])))
   \<and> (sys_lstat sys src (world s) = Inr srcStat \<and> sys_lstat sys dst (world s) = Inl err \<longrightarrow>
      CopyMode sys src dst followSymlinks s =
        (Returns (Some err), (world s, calls s @ [LstatCall src, LstatCall dst])))
   \<and> (sys_lstat sys src (world s) = Inr srcStat \<and> sys_lstat sys dst (world s) = Inr dstStat
        \<and> \<not> (\<not> followSymlinks \<and> IsSymlink srcStat \<and> IsSymlink dstStat)
        \<and> sys_stat sys src (world s) = Inr srcStat'
        \<and> sys_chmod sys dst (Mode srcStat') (world s) = (result, w') \<longrightarrow>
      CopyMode sys src dst followSymlinks s =
        (Returns result,
         (w', calls s @ [LstatCall src, LstatCall dst, StatCall src, ChmodCall dst (Mode srcStat')])))"
  by (auto simp: CopyMode_def os_calls world_def calls_def)

subsection \<open>\<open>CopyFile\<close>: the same file\<close>

text \<open>
  Claim C5. For every path \<open>F\<close> that exists (\<open>os.Stat(F)\<close> succeeds) and every value of
  \<open>followSymlinks\<close>, \<open>CopyFile(F, F, followSymlinks)\<close> fails with \<open>SameFileError\<close>; more
  generally \<open>CopyFile\<close> fails with \<open>SameFileError\<close> whenever \<open>src\<close> and \<open>dst\<close> resolve to
  the same device and inode. Nothing is written before: the world is the one the call
  started in, and the only calls made are the two \<open>Stat\<close> queries of \<open>samefile\<close>.
\<close>

theorem CopyFile_same_file:
  "(sys_stat sys F (world s) = Inr fi \<longrightarrow>
      CopyFile sys F F followSymlinks s =
        (Some (SameFileError F F), (world s, calls s @ [StatCall F, StatCall F])))
   \<and> (sys_stat sys src (world s) = Inr srcInfo \<and> sys_stat sys dst (world s) = Inr dstInfo
        \<and> Dev srcInfo = Dev dstInfo \<and> Ino srcInfo = Ino dstInfo \<longrightarrow>
      CopyFile sys src dst followSymlinks s =
        (Some (SameFileError src dst), (world s, calls s @ [StatCall src, StatCall dst])))"
  by (simp add: CopyFile_def samefile_def os_calls world_def calls_def)

text \<open>A regular file copied onto itself, and a link copied onto the file it points to.\<close>

theorem CopyFile_same_file_witness:
  "sys_stat memsys ''/a/t'' world_abs = Inr (info ''/a/t'' (regular 2 0x1A4 [104, 105]))
   \<and> CopyFile memsys ''/a/t'' ''/a/t'' False (world_abs, []) =
        (Some (SameFileError ''/a/t'' ''/a/t''), (world_abs, [StatCall ''/a/t'', StatCall ''/a/t'']))
   \<and> sys_stat memsys ''/a/s'' world_abs = Inr (info ''/a/s'' (regular 2 0x1A4 [104, 105]))
   \<and> CopyFile memsys ''/a/s'' ''/a/t'' True (world_abs, []) =
        (Some (SameFileError ''/a/s'' ''/a/t''), (world_abs, [StatCall ''/a/s'', StatCall ''/a/t'']))"
proof -
  have h1: "sys_stat memsys ''/a/t'' (world (world_abs, [])) =
      Inr (info ''/a/t'' (regular 2 0x1A4 [104, 105]))"
    by code_simp
  have h2: "sys_stat memsys ''/a/s'' (world (world_abs, [])) =
      Inr (info ''/a/s'' (regular 2 0x1A4 [104, 105]))"
    by code_simp
  have h3: "Dev (info ''/a/s'' (regular 2 0x1A4 [104, 105])) = Dev (info ''/a/t'' (regular 2 0x1A4 [104, 105]))"
    "Ino (info ''/a/s'' (regular 2 0x1A4 [104, 105])) = Ino (info ''/a/t'' (regular 2 0x1A4 [104, 105]))"
    by (simp_all add: info_def)
  show ?thesis
    using CopyFile_same_file [where sys = memsys and F = "''/a/t''" and s = "(world_abs, [])"
          and followSymlinks = False]
      CopyFile_same_file [where sys = memsys and src = "''/a/s''" and dst = "''/a/t''"
          and s = "(world_abs, [])" and followSymlinks = True]
      h1 h2 h3
    by (simp add: world_def calls_def)
qed

subsection \<open>\<open>CopyFile\<close>: named pipes\<close>

text \<open>
  Claim C6 says that \<open>CopyFile(P, X)\<close> and \<open>CopyFile(X, P)\<close> fail with \<open>SpecialFileError\<close>
  for a named pipe \<open>P\<close> and every path \<open>X\<close>. The check of \<open>samefile\<close> comes first and the
  query of \<open>src\<close> before the one of \<open>dst\<close>: a pipe copied onto itself is refused with
  \<open>SameFileError\<close>, and a source that does not exist with the error of \<open>os.Lstat\<close>.
\<close>

theorem CopyFile_named_pipe_counterexample:
  "sys_lstat memsys ''/a/p'' world_abs = Inr (info ''/a/p'' (fifo 5))
   \<and> specialfile (info ''/a/p'' (fifo 5))
   \<and> fst (CopyFile memsys ''/a/p'' ''/a/p'' False (world_abs, [])) = Some (SameFileError ''/a/p'' ''/a/p'')
   \<and> fst (CopyFile memsys ''/a/missing'' ''/a/p'' False (world_abs, [])) =
        Some (PathError ''lstat'' ''/a/missing'' ENOENT)"
  by code_simp

text \<open>
  Claim C6, amended. Let \<open>P\<close> be a named pipe (both queries of \<open>P\<close> report the pipe).
  For every \<open>followSymlinks\<close>: \<open>CopyFile(P, X)\<close> fails with \<open>SpecialFileError\<close> for \<open>P\<close>
  whenever \<open>X\<close> is not the same file as \<open>P\<close>; and \<open>CopyFile(X, P)\<close> fails with
  \<open>SpecialFileError\<close> whenever \<open>os.Lstat(X)\<close> succeeds and \<open>X\<close> is not the same file as
  \<open>P\<close>, the error naming \<open>X\<close> when \<open>X\<close> is itself a pipe and \<open>P\<close> otherwise. In both
  cases the world is unchanged and only metadata queries were made: no file is opened,
  created or written.
\<close>

theorem CopyFile_named_pipe:
  assumes "sys_lstat sys P (world s) = Inr pipe"
      and "sys_stat sys P (world s) = Inr pipe"
      and "specialfile pipe"
  shows "(\<not> SameFile (Some pipe) (info_or_nil (sys_stat sys X (world s))) \<longrightarrow>
            CopyFile sys P X followSymlinks s =
              (Some (SpecialFileError P pipe),
               (world s, calls s @ [StatCall P, StatCall X, LstatCall P])))
       \<and> (sys_lstat sys X (world s) = Inr xStat
            \<and> \<not> SameFile (info_or_nil (sys_stat sys X (world s))) (Some pipe) \<longrightarrow>
            CopyFile sys X P followSymlinks s =
              (if specialfile xStat
               then (Some (SpecialFileError X xStat),
                     (world s, calls s @ [StatCall X, StatCall P, LstatCall X]))
               else (Some (SpecialFileError P pipe),
                     (world s, calls s @ [StatCall X, StatCall P, LstatCall X, StatCall P]))))"
  using assms by (simp add: CopyFile_def samefile_def os_calls world_def calls_def)

text \<open>The pipe copied to a fresh name, and a regular file copied onto the pipe.\<close>

theorem CopyFile_named_pipe_witness:
  "sys_lstat memsys ''/a/p'' world_abs = Inr (info ''/a/p'' (fifo 5))
   \<and> sys_stat memsys ''/a/p'' world_abs = Inr (info ''/a/p'' (fifo 5))
   \<and> specialfile (info ''/a/p'' (fifo 5))
   \<and> CopyFile memsys ''/a/p'' ''/b/d'' True (world_abs, []) =
        (Some (SpecialFileError ''/a/p'' (info ''/a/p'' (fifo 5))),
         (world_abs, [StatCall ''/a/p'', StatCall ''/b/d'', LstatCall ''/a/p'']))
   \<and> CopyFile memsys ''/a/t'' ''/a/p'' True (world_abs, []) =
        (Some (SpecialFileError ''/a/p'' (info ''/a/p'' (fifo 5))),
         (world_abs, [StatCall ''/a/t'', StatCall ''/a/p'', LstatCall ''/a/t'', StatCall ''/a/p'']))"
proof -
  have h1: "sys_lstat memsys ''/a/p'' (world (world_abs, [])) = Inr (info ''/a/p'' (fifo 5))"
    by code_simp
  have h2: "sys_stat memsys ''/a/p'' (world (world_abs, [])) = Inr (info ''/a/p'' (fifo 5))"
    by code_simp
  have h3: "specialfile (info ''/a/p'' (fifo 5))"
    by code_simp
  have h4: "\<not> SameFile (Some (info ''/a/p'' (fifo 5)))
      (info_or_nil (sys_stat memsys ''/b/d'' (world (world_abs, []))))"
    by code_simp
  have h5: "sys_lstat memsys ''/a/t'' (world (world_abs, [])) =
      Inr (info ''/a/t'' (regular 2 0x1A4 [104, 105]))"
    by code_simp
  have h6: "\<not> SameFile (info_or_nil (sys_stat memsys ''/a/t'' (world (world_abs, []))))
      (Some (info ''/a/p'' (fifo 5)))"
    by code_simp
  have h7: "\<not> specialfile (info ''/a/t'' (regular 2 0x1A4 [104, 105]))"
    by code_simp
  show ?thesis
    using CopyFile_named_pipe [OF h1 h2 h3, where X = "''/b/d''" and followSymlinks = True]
      CopyFile_named_pipe [OF h1 h2 h3, where X = "''/a/t''" and followSymlinks = True
          and xStat = "info ''/a/t'' (regular 2 0x1A4 [104, 105])"]
      h1 h2 h3 h4 h5 h6 h7
    by (simp add: world_def calls_def)
qed

subsection \<open>\<open>CopyFile\<close>: the query of the destination\<close>

text \<open>
  Claim C4 says that the destination is examined with a query that does not follow
  links. Line 64 calls \<open>os.Stat\<close>, which follows them: for a destination that is a link
  to a named pipe the query without following reports a link, which is not special,
  and \<open>CopyFile\<close> fails with \<open>SpecialFileError\<close> all the same, carrying the metadata of
  the pipe; the calls made on the destination are \<open>Stat\<close> calls.
\<close>

theorem CopyFile_destination_query_counterexample:
  "sys_lstat memsys ''/a/lp'' world_abs = Inr (info ''/a/lp'' (symlink 6 ''/a/p''))
   \<and> \<not> specialfile (info ''/a/lp'' (symlink 6 ''/a/p''))
   \<and> CopyFile memsys ''/a/t'' ''/a/lp'' True (world_abs, []) =
        (Some (SpecialFileError ''/a/lp'' (info ''/a/lp'' (fifo 5))),
         (world_abs, [StatCall ''/a/t'', StatCall ''/a/lp'', LstatCall ''/a/t'', StatCall ''/a/lp'']))"
  by code_simp

text \<open>
  Claim C4, amended. In \<open>CopyFile\<close>, once the same-file check and the query of the
  source have passed, the destination is examined with the query \<open>os.Stat\<close>, which
  follows links: if it succeeds and reports a named pipe the call fails with
  \<open>SpecialFileError\<close> for \<open>dst\<close> with that metadata; if it fails with an error for which
  \<open>os.IsNotExist\<close> holds, that is no error at this step and the call goes on to lines
  73-112 whatever the error was; any other error of the query is returned.
\<close>

theorem CopyFile_destination_query:
  assumes "\<not> SameFile (info_or_nil (sys_stat sys src (world s))) (info_or_nil (sys_stat sys dst (world s)))"
      and "sys_lstat sys src (world s) = Inr srcStat"
      and "\<not> specialfile srcStat"
  shows "(sys_stat sys dst (world s) = Inr dstStat \<and> specialfile dstStat \<longrightarrow>
            CopyFile sys src dst followSymlinks s =
              (Some (SpecialFileError dst dstStat),
               (world s, calls s @ [StatCall src, StatCall dst, LstatCall src, StatCall dst])))
       \<and> (sys_stat sys dst (world s) = Inl err \<and> IsNotExist err \<longrightarrow>
            CopyFile sys src dst followSymlinks s =
              copy_link_or_data sys src srcStat dst followSymlinks
                (world s, calls s @ [StatCall src, StatCall dst, LstatCall src, StatCall dst]))
       \<and> (sys_stat sys dst (world s) = Inl err \<and> \<not> IsNotExist err \<longrightarrow>
            CopyFile sys src dst followSymlinks s =
              (Some err, (world s, calls s @ [StatCall src, StatCall dst, LstatCall src, StatCall dst])))"
  using assms by (auto simp: CopyFile_def samefile_def os_calls world_def calls_def)

text \<open>A link to a pipe as destination, and a destination that does not exist.\<close>

theorem CopyFile_destination_query_witness:
  "sys_stat memsys ''/a/lp'' world_abs = Inr (info ''/a/lp'' (fifo 5))
   \<and> specialfile (info ''/a/lp'' (fifo 5))
   \<and> fst (CopyFile memsys ''/a/s'' ''/a/lp'' False (world_abs, [])) =
        Some (SpecialFileError ''/a/lp'' (info ''/a/lp'' (fifo 5)))
   \<and> sys_stat memsys ''/b/d'' world_abs = Inl (PathError ''stat'' ''/b/d'' ENOENT)
   \<and> IsNotExist (PathError ''stat'' ''/b/d'' ENOENT)
   \<and> CopyFile memsys ''/a/s'' ''/b/d'' False (world_abs, []) =
        copy_link_or_data memsys ''/a/s'' (info ''/a/s'' (symlink 3 ''/a/t'')) ''/b/d'' False
          (world_abs, [StatCall ''/a/s'', StatCall ''/b/d'', LstatCall ''/a/s'', StatCall ''/b/d''])
   \<and> fst (CopyFile memsys ''/a/s'' ''/b/d'' False (world_abs, [])) = None"
proof -
  have a1: "\<not> SameFile (info_or_nil (sys_stat memsys ''/a/s'' (world (world_abs, []))))
      (info_or_nil (sys_stat memsys ''/a/lp'' (world (world_abs, []))))"
    by code_simp
  have a2: "\<not> SameFile (info_or_nil (sys_stat memsys ''/a/s'' (world (world_abs, []))))
      (info_or_nil (sys_stat memsys ''/b/d'' (world (world_abs, []))))"
    by code_simp
  have a3: "sys_lstat memsys ''/a/s'' (world (world_abs, [])) = Inr (info ''/a/s'' (symlink 3 ''/a/t''))"
    by code_simp
  have a4: "\<not> specialfile (info ''/a/s'' (symlink 3 ''/a/t''))"
    by code_simp
  have b1: "sys_stat memsys ''/a/lp'' (world (world_abs, [])) = Inr (info ''/a/lp'' (fifo 5))"
    by code_simp
  have b2: "specialfile (info ''/a/lp'' (fifo 5))"
    by code_simp
  have b3: "sys_stat memsys ''/b/d'' (world (world_abs, [])) = Inl (PathError ''stat'' ''/b/d'' ENOENT)"
    by code_simp
  have b4: "IsNotExist (PathError ''stat'' ''/b/d'' ENOENT)"
    by code_simp
  have b5: "fst (copy_link_or_data memsys ''/a/s'' (info ''/a/s'' (symlink 3 ''/a/t'')) ''/b/d'' False
          (world_abs, [StatCall ''/a/s'', StatCall ''/b/d'', LstatCall ''/a/s'', StatCall ''/b/d''])) = None"
    by code_simp
  show ?thesis
    using CopyFile_destination_query [OF a1 a3 a4, where followSymlinks = False
          and dstStat = "info ''/a/lp'' (fifo 5)"]
      CopyFile_destination_query [OF a2 a3 a4, where followSymlinks = False
          and err = "PathError ''stat'' ''/b/d'' ENOENT"]
      b1 b2 b3 b4 b5
    by (simp add: world_def calls_def)
qed

subsection \<open>\<open>CopyFile\<close>: the size check\<close>

text \<open>
  Claim C8. In \<open>CopyFile\<close>, after \<open>io.Copy\<close> has returned without error, the number of
  bytes it reports is compared with the size recorded by the earlier query of the
  source: the \<open>Lstat\<close> of line 56, or for a link that is followed the \<open>Stat\<close> of the
  name read by \<open>Readlink\<close>. When they differ the call fails with the error whose text
  is the path opened, a colon, the bytes copied, a slash, the expected size and the
  word \<open>copied\<close>; when they are equal it returns nil.
\<close>

theorem CopyFile_size_check:
  assumes "\<not> SameFile (info_or_nil (sys_stat sys src w)) (info_or_nil (sys_stat sys dst w))"
      and "sys_lstat sys src w = Inr srcStat0"
      and "\<not> specialfile srcStat0"
      and "case sys_stat sys dst w of Inl err \<Rightarrow> IsNotExist err | Inr dstStat \<Rightarrow> \<not> specialfile dstStat"
      and "followSymlinks \<or> \<not> IsSymlink srcStat0"
      and "if IsSymlink srcStat0
           then sys_readlink sys src w = Inr src' \<and> sys_stat sys src' w = Inr srcStat
           else src' = src \<and> srcStat = srcStat0"
      and "sys_open sys src' w = (Inr fsrc, w1)"
      and "sys_create sys dst w1 = (Inr fdst, w2)"
      and "sys_copy sys fdst fsrc w2 = ((n, None), w3)"
  shows "fst (CopyFile sys src dst followSymlinks (w, cs)) =
           (if n = Size srcStat then None
            else Some (ErrorString (src' @ '': '' @ fmt_d n @ ''/'' @ fmt_d (Size srcStat) @ '' copied'')))"
  using assms
  by (auto simp: CopyFile_def samefile_def copy_link_or_data_def copy_data_def size_error_def os_calls
      split: sum.splits if_splits)

text \<open>A file that reports size 0 and yields three bytes fails the check; a link to a
  regular file of two bytes passes it, with the size of the file the link points to.\<close>

theorem CopyFile_size_check_witness:
  "fst (CopyFile memsys ''/a/v'' ''/b/d'' True (world_abs, [])) =
     Some (ErrorString ''/a/v: 3/0 copied'')
   \<and> fst (CopyFile memsys ''/a/s'' ''/b/d'' True (world_abs, [])) = None"
proof -
  let ?v = "info ''/a/v'' (pseudo 8 0x124 [1, 2, 3])"
  let ?s = "info ''/a/s'' (symlink 3 ''/a/t'')"
  let ?t = "info ''/a/t'' (regular 2 0x1A4 [104, 105])"
  define w2 where "w2 = snd (sys_create memsys ''/b/d'' world_abs)"
  define w3 where "w3 = snd (sys_copy memsys (Handle ''/b/d'') (Handle ''/a/v'') (snd (sys_create memsys ''/b/d'' world_abs)))"
  define w4 where "w4 = snd (sys_copy memsys (Handle ''/b/d'') (Handle ''/a/t'') (snd (sys_create memsys ''/b/d'' world_abs)))"
  have v1: "\<not> SameFile (info_or_nil (sys_stat memsys ''/a/v'' world_abs))
      (info_or_nil (sys_stat memsys ''/b/d'' world_abs))"
    by code_simp
  have v2: "sys_lstat memsys ''/a/v'' world_abs = Inr ?v"
    by code_simp
  have v3: "\<not> specialfile ?v"
    by code_simp
  have d: "case sys_stat memsys ''/b/d'' world_abs of
      Inl err \<Rightarrow> IsNotExist err | Inr dstStat \<Rightarrow> \<not> specialfile dstStat"
    by code_simp
  have f: "True \<or> \<not> IsSymlink ?v" "True \<or> \<not> IsSymlink ?s"
    by simp_all
  have v4: "if IsSymlink ?v
      then sys_readlink memsys ''/a/v'' world_abs = Inr ''/a/v'' \<and> sys_stat memsys ''/a/v'' world_abs = Inr ?v
      else ''/a/v'' = ''/a/v'' \<and> ?v = ?v"
    by code_simp
  have v5: "sys_open memsys ''/a/v'' world_abs = (Inr (Handle ''/a/v''), world_abs)"
    by code_simp
  have c: "sys_create memsys ''/b/d'' world_abs = (Inr (Handle ''/b/d''), w2)"
    unfolding w2_def by code_simp
  have v6: "sys_copy memsys (Handle ''/b/d'') (Handle ''/a/v'') w2 = ((3, None), w3)"
    unfolding w2_def w3_def by code_simp
  have s1: "\<not> SameFile (info_or_nil (sys_stat memsys ''/a/s'' world_abs))
      (info_or_nil (sys_stat memsys ''/b/d'' world_abs))"
    by code_simp
  have s2: "sys_lstat memsys ''/a/s'' world_abs = Inr ?s"
    by code_simp
  have s3: "\<not> specialfile ?s"
    by code_simp
  have s4: "if IsSymlink ?s
      then sys_readlink memsys ''/a/s'' world_abs = Inr ''/a/t'' \<and> sys_stat memsys ''/a/t'' world_abs = Inr ?t
      else ''/a/t'' = ''/a/s'' \<and> ?t = ?s"
    by code_simp
  have s5: "sys_open memsys ''/a/t'' world_abs = (Inr (Handle ''/a/t''), world_abs)"
    by code_simp
  have s6: "sys_copy memsys (Handle ''/b/d'') (Handle ''/a/t'') w2 = ((2, None), w4)"
    unfolding w2_def w4_def by code_simp
  have e1: "Size ?v = 0" "Size ?t = 2"
    by code_simp+
  have e2: "''/a/v'' @ '': '' @ fmt_d 3 @ ''/'' @ fmt_d 0 @ '' copied'' = ''/a/v: 3/0 copied''"
    by code_simp
  show ?thesis
    using CopyFile_size_check [OF v1 v2 v3 d f(1) v4 v5 c v6, of "[]"]
      CopyFile_size_check [OF s1 s2 s3 d f(2) s4 s5 c s6, of "[]"] e1 e2
    by simp
qed

subsection \<open>\<open>CopyFile\<close> and the clone helper\<close>

lemma copy_data_no_ioctl:
  "filter is_ioctl (snd (snd (copy_data sys src srcStat dst s))) = filter is_ioctl (snd s)"
  by (simp add: copy_data_def os_calls split: prod.splits sum.splits option.splits)

lemma copy_link_or_data_no_ioctl:
  "filter is_ioctl (snd (snd (copy_link_or_data sys src srcStat dst followSymlinks s))) =
     filter is_ioctl (snd s)"
  by (simp add: copy_link_or_data_def copy_data_no_ioctl os_calls
      split: prod.splits sum.splits option.splits)

lemma CopyFile_no_ioctl:
  "filter is_ioctl (snd (snd (CopyFile sys src dst followSymlinks s))) = filter is_ioctl (snd s)"
  by (simp add: CopyFile_def samefile_def copy_link_or_data_no_ioctl os_calls
      split: prod.splits sum.splits option.splits bool.splits)

text \<open>
  Claim C2 says that \<open>CopyFile\<close> attempts the clone on the two open files before it
  copies the bytes. \<open>CopyFile\<close> never calls \<open>clonefile\<close>: on a file system where the
  clone of the two files would succeed, the run that reaches the copy opens the source,
  creates the destination and calls \<open>io.Copy\<close>, and no \<open>ioctl\<close> is among its calls.
\<close>

theorem CopyFile_never_clones_counterexample:
  "fst (CopyFile memsys ''/a/t'' ''/b/d'' True (world_abs, [])) = None
   \<and> calls (snd (CopyFile memsys ''/a/t'' ''/b/d'' True (world_abs, []))) =
       [StatCall ''/a/t'', StatCall ''/b/d'', LstatCall ''/a/t'', StatCall ''/b/d'',
        OpenCall ''/a/t'', CreateCall ''/b/d'', CopyCall (Handle ''/b/d'') (Handle ''/a/t''),
        CloseCall (Handle ''/b/d''), CloseCall (Handle ''/a/t'')]
   \<and> fst (clonefile memsys (Handle ''/b/d'') (Handle ''/a/t'')
        (snd (os_Create memsys ''/b/d'' (world_abs, [])))) = (True, None)"
  by code_simp

text \<open>
  Claim C2, amended. \<open>CopyFile\<close> makes no \<open>ioctl\<close> call on any run, so the clone is never
  attempted. Whenever a run of \<open>CopyFile\<close> reaches the copy step (the same-file and
  special-file checks pass, the link if any is followed, the source is opened and the
  destination created), the calls of \<open>CopyFile\<close> are the queries, \<open>os.Open\<close>, \<open>os.Create\<close>,
  then \<open>io.Copy\<close> on the two open files and the two \<open>Close\<close> calls, and the world it leaves
  is the one \<open>io.Copy\<close> left, closed. \<open>clonefile\<close>, which nothing calls, reports a failed
  \<open>ioctl\<close> as the pair of \<open>false\<close> and the errno: the failure is a value returned to the
  caller.
\<close>

theorem CopyFile_never_clones:
  "filter is_ioctl (calls (snd (CopyFile sys src dst followSymlinks s))) = filter is_ioctl (calls s)
   \<and> (\<not> SameFile (info_or_nil (sys_stat sys src (world s))) (info_or_nil (sys_stat sys dst (world s)))
        \<and> sys_lstat sys src (world s) = Inr srcStat0 \<and> \<not> specialfile srcStat0
        \<and> (case sys_stat sys dst (world s) of
              Inl err \<Rightarrow> IsNotExist err | Inr dstStat \<Rightarrow> \<not> specialfile dstStat)
        \<and> (followSymlinks \<or> \<not> IsSymlink srcStat0)
        \<and> (if IsSymlink srcStat0
            then sys_readlink sys src (world s) = Inr src' \<and> sys_stat sys src' (world s) = Inr srcStat
            else src' = src \<and> srcStat = srcStat0)
        \<and> sys_open sys src' (world s) = (Inr fsrc, w1)
        \<and> sys_create sys dst w1 = (Inr fdst, w2)
        \<and> sys_copy sys fdst fsrc w2 = (copied, w3) \<longrightarrow>
        calls (snd (CopyFile sys src dst followSymlinks s)) =
          calls s @ [StatCall src, StatCall dst, LstatCall src, StatCall dst]
            @ (if IsSymlink srcStat0 then [ReadlinkCall src, StatCall src'] else [])
            @ [OpenCall src', CreateCall dst, CopyCall fdst fsrc, CloseCall fdst, CloseCall fsrc]
        \<and> world (snd (CopyFile sys src dst followSymlinks s)) =
          snd (sys_close sys fsrc (snd (sys_close sys fdst w3))))
   \<and> (sys_ioctl sys fdst BtrfsIocClone fsrc (world s) = (e, w') \<and> e \<noteq> 0 \<longrightarrow>
        clonefile sys fdst fsrc s =
          ((False, Some (Errno e)), (w', calls s @ [IoctlCall fdst BtrfsIocClone fsrc])))"
proof (intro conjI impI)
  show "filter is_ioctl (calls (snd (CopyFile sys src dst followSymlinks s))) = filter is_ioctl (calls s)"
    by (simp add: calls_def CopyFile_no_ioctl)
next
  assume a: "\<not> SameFile (info_or_nil (sys_stat sys src (world s))) (info_or_nil (sys_stat sys dst (world s)))
        \<and> sys_lstat sys src (world s) = Inr srcStat0 \<and> \<not> specialfile srcStat0
        \<and> (case sys_stat sys dst (world s) of
              Inl err \<Rightarrow> IsNotExist err | Inr dstStat \<Rightarrow> \<not> specialfile dstStat)
        \<and> (followSymlinks \<or> \<not> IsSymlink srcStat0)
        \<and> (if IsSymlink srcStat0
            then sys_readlink sys src (world s) = Inr src' \<and> sys_stat sys src' (world s) = Inr srcStat
            else src' = src \<and> srcStat = srcStat0)
        \<and> sys_open sys src' (world s) = (Inr fsrc, w1)
        \<and> sys_create sys dst w1 = (Inr fdst, w2)
        \<and> sys_copy sys fdst fsrc w2 = (copied, w3)"
  obtain n cerr where c: "copied = (n, cerr)"
    by (cases copied)
  from a c show "calls (snd (CopyFile sys src dst followSymlinks s)) =
          calls s @ [StatCall src, StatCall dst, LstatCall src, StatCall dst]
            @ (if IsSymlink srcStat0 then [ReadlinkCall src, StatCall src'] else [])
            @ [OpenCall src', CreateCall dst, CopyCall fdst fsrc, CloseCall fdst, CloseCall fsrc]"
    by (cases cerr)
      (auto simp: CopyFile_def samefile_def copy_link_or_data_def copy_data_def os_calls
        world_def calls_def split: sum.splits if_splits)
  from a c show "world (snd (CopyFile sys src dst followSymlinks s)) =
          snd (sys_close sys fsrc (snd (sys_close sys fdst w3)))"
    by (cases cerr)
      (auto simp: CopyFile_def samefile_def copy_link_or_data_def copy_data_def os_calls
        world_def calls_def split: sum.splits if_splits)
next
  assume "sys_ioctl sys fdst BtrfsIocClone fsrc (world s) = (e, w') \<and> e \<noteq> 0"
  then show "clonefile sys fdst fsrc s =
      ((False, Some (Errno e)), (w', calls s @ [IoctlCall fdst BtrfsIocClone fsrc]))"
    by (simp add: clonefile_def os_calls calls_def world_def)
qed

text \<open>A link to a regular file, followed and copied to a fresh name.\<close>

theorem CopyFile_never_clones_witness:
  "filter is_ioctl (calls (snd (CopyFile memsys ''/a/s'' ''/b/d'' True (world_abs, [])))) = []
   \<and> calls (snd (CopyFile memsys ''/a/s'' ''/b/d'' True (world_abs, []))) =
       [StatCall ''/a/s'', StatCall ''/b/d'', LstatCall ''/a/s'', StatCall ''/b/d'',
        ReadlinkCall ''/a/s'', StatCall ''/a/t'',
        OpenCall ''/a/t'', CreateCall ''/b/d'', CopyCall (Handle ''/b/d'') (Handle ''/a/t''),
        CloseCall (Handle ''/b/d''), CloseCall (Handle ''/a/t'')]
   \<and> clonefile memsys (Handle ''/b/d'') (Handle ''/a/t'') (world_abs, []) =
       ((False, Some (Errno EBADF)), (world_abs, [IoctlCall (Handle ''/b/d'') BtrfsIocClone (Handle ''/a/t'')]))"
proof -
  let ?s = "info ''/a/s'' (symlink 3 ''/a/t'')"
  let ?t = "info ''/a/t'' (regular 2 0x1A4 [104, 105])"
  define w2 where "w2 = snd (sys_create memsys ''/b/d'' world_abs)"
  define w3 where "w3 = snd (sys_copy memsys (Handle ''/b/d'') (Handle ''/a/t'')
    (snd (sys_create memsys ''/b/d'' world_abs)))"
  have h: "\<not> SameFile (info_or_nil (sys_stat memsys ''/a/s'' (world (world_abs, []))))
        (info_or_nil (sys_stat memsys ''/b/d'' (world (world_abs, []))))
      \<and> sys_lstat memsys ''/a/s'' (world (world_abs, [])) = Inr ?s \<and> \<not> specialfile ?s
      \<and> (case sys_stat memsys ''/b/d'' (world (world_abs, [])) of
            Inl err \<Rightarrow> IsNotExist err | Inr dstStat \<Rightarrow> \<not> specialfile dstStat)
      \<and> (True \<or> \<not> IsSymlink ?s)
      \<and> (if IsSymlink ?s
          then sys_readlink memsys ''/a/s'' (world (world_abs, [])) = Inr ''/a/t''
            \<and> sys_stat memsys ''/a/t'' (world (world_abs, [])) = Inr ?t
          else ''/a/t'' = ''/a/s'' \<and> ?t = ?s)
      \<and> sys_open memsys ''/a/t'' (world (world_abs, [])) = (Inr (Handle ''/a/t''), world_abs)
      \<and> sys_create memsys ''/b/d'' world_abs = (Inr (Handle ''/b/d''), w2)
      \<and> sys_copy memsys (Handle ''/b/d'') (Handle ''/a/t'') w2 = ((2, None), w3)"
    unfolding w2_def w3_def by code_simp
  have l: "IsSymlink ?s"
    by code_simp
  have i: "sys_ioctl memsys (Handle ''/b/d'') BtrfsIocClone (Handle ''/a/t'') (world (world_abs, [])) =
      (EBADF, world_abs) \<and> EBADF \<noteq> 0"
    by code_simp
  have t: "filter is_ioctl (calls (snd (CopyFile memsys ''/a/s'' ''/b/d'' True (world_abs, [])))) =
      filter is_ioctl (calls (world_abs, []))"
    and c: "calls (snd (CopyFile memsys ''/a/s'' ''/b/d'' True (world_abs, []))) =
      calls (world_abs, []) @ [StatCall ''/a/s'', StatCall ''/b/d'', LstatCall ''/a/s'', StatCall ''/b/d'']
        @ (if IsSymlink ?s then [ReadlinkCall ''/a/s'', StatCall ''/a/t''] else [])
        @ [OpenCall ''/a/t'', CreateCall ''/b/d'', CopyCall (Handle ''/b/d'') (Handle ''/a/t''),
           CloseCall (Handle ''/b/d''), CloseCall (Handle ''/a/t'')]"
    and k: "clonefile memsys (Handle ''/b/d'') (Handle ''/a/t'') (world_abs, []) =
      ((False, Some (Errno EBADF)), (world_abs, calls (world_abs, []) @
         [IoctlCall (Handle ''/b/d'') BtrfsIocClone (Handle ''/a/t'')]))"
    using CopyFile_never_clones [where sys = memsys and src = "''/a/s''" and dst = "''/b/d''"
        and followSymlinks = True and s = "(world_abs, [])" and src' = "''/a/t''"
        and ?srcStat0.0 = ?s and srcStat = ?t
        and fsrc = "Handle ''/a/t''" and fdst = "Handle ''/b/d''" and ?w1.0 = world_abs
        and ?w2.0 = w2 and ?w3.0 = w3 and copied = "(2, None)" and e = EBADF and w' = world_abs]
      h i
    by blast+
  show ?thesis
    using t c k l by (simp add: calls_def)
qed

subsection \<open>\<open>CopyFile\<close>: a link copied as a link\<close>

text \<open>
  Claim C1 says that \<open>CopyFile(src, dst, false)\<close> makes \<open>dst\<close> a link with the target
  string of the link \<open>src\<close>. Line 75 calls \<open>os.Symlink(src, dst)\<close>: the new link points at
  the path \<open>src\<close> itself. For the link \<open>/a/s\<close> with target \<open>/a/t\<close> and the fresh name
  \<open>/b/d\<close> the call succeeds and the target of \<open>/b/d\<close> is \<open>/a/s\<close>.
\<close>

theorem CopyFile_symlink_target_is_source_path:
  "sys_readlink memsys ''/a/s'' world_abs = Inr ''/a/t''
   \<and> sys_lstat memsys ''/b/d'' world_abs = Inl (PathError ''lstat'' ''/b/d'' ENOENT)
   \<and> fst (CopyFile memsys ''/a/s'' ''/b/d'' False (world_abs, [])) = None
   \<and> sys_readlink memsys ''/b/d''
        (world (snd (CopyFile memsys ''/a/s'' ''/b/d'' False (world_abs, [])))) = Inr ''/a/s''"
  by code_simp

text \<open>On every operating system: when the run reaches line 74 with a link that is not
  followed, what \<open>CopyFile\<close> returns is what \<open>os.Symlink(src, dst)\<close> returns, the old
  name being the path \<open>src\<close>; no file is opened or read.\<close>

lemma CopyFile_link_call:
  assumes "\<not> SameFile (info_or_nil (sys_stat sys src (world s))) (info_or_nil (sys_stat sys dst (world s)))"
    and "sys_lstat sys src (world s) = Inr srcStat" and "IsSymlink srcStat"
    and "\<not> specialfile srcStat"
    and "case sys_stat sys dst (world s) of Inl err \<Rightarrow> IsNotExist err | Inr dstStat \<Rightarrow> \<not> specialfile dstStat"
  shows "CopyFile sys src dst False s =
           os_Symlink sys src dst
             (world s, calls s @ [StatCall src, StatCall dst, LstatCall src, StatCall dst])"
  using assms
  by (auto simp: CopyFile_def samefile_def copy_link_or_data_def os_calls world_def calls_def
      split: sum.splits)

subsection \<open>\<open>Copy\<close> into a directory\<close>

text \<open>
  Claim C7 says that after \<open>Copy(src, dir, followSymlinks)\<close> has succeeded the path
  \<open>dir/basename(src)\<close> exists with contents matching \<open>src\<close>. For the relative link \<open>s\<close>
  with target \<open>t\<close>, copied into the directory \<open>d\<close> without following links, \<open>Copy\<close>
  returns \<open>d/s\<close> and no error; \<open>d/s\<close> is a link with target \<open>s\<close>, which is neither the
  target of \<open>src\<close> nor a name that leads to its bytes: read relative to \<open>d\<close> it is
  \<open>d/s\<close> itself, and reading it fails with \<open>ELOOP\<close>.
\<close>

theorem Copy_into_directory_broken_link:
  "sys_readlink memsys ''s'' world_rel = Inr ''t''
   \<and> read_file world_rel ''s'' = Inr [104, 105]
   \<and> fst (Copy memsys ''s'' ''d'' False (world_rel, [])) = Returns (''d/s'', None)
   \<and> sys_readlink memsys ''d/s''
        (world (snd (Copy memsys ''s'' ''d'' False (world_rel, [])))) = Inr ''s''
   \<and> read_file (world (snd (Copy memsys ''s'' ''d'' False (world_rel, [])))) ''d/s'' =
        Inl (PathError ''open'' ''d/s'' ELOOP)"
  by code_simp

text \<open>The other two parts of claim C7 hold on every operating system: when \<open>dst\<close> is a
  directory the copy is made at \<open>Join(dst, Base(src))\<close>, and that is the path \<open>Copy\<close>
  returns, with or without an error.\<close>

lemma Copy_directory_redirect:
  assumes "sys_stat sys dst (world s) = Inr dstInfo" and "IsDir (Mode dstInfo)"
  shows "Copy sys src dst followSymlinks s =
           copy_file_and_mode sys src (Join dst (Base src)) followSymlinks
             (world s, calls s @ [StatCall dst])"
  using assms by (simp add: Copy_def os_calls world_def calls_def)

lemma copy_file_and_mode_path:
  assumes "fst (copy_file_and_mode sys src p followSymlinks s) = Returns (q, e)"
  shows "q = p"
  using assms
  by (auto simp: copy_file_and_mode_def split: prod.splits option.splits exit.splits)

lemma Copy_directory_path:
  assumes "sys_stat sys dst (world s) = Inr dstInfo" and "IsDir (Mode dstInfo)"
    and "fst (Copy sys src dst followSymlinks s) = Returns (q, e)"
  shows "q = Join dst (Base src)"
  using assms copy_file_and_mode_path [of sys src "Join dst (Base src)" followSymlinks _ q e]
  by (simp add: Copy_directory_redirect)

subsection \<open>The file system in memory: lookups after an update\<close>

lemma lookup_put [simp]: "lookup (put p n fs) q = (if q = p then Some n else lookup fs q)"
  by (simp add: lookup_def put_def)

lemma lookup_next_ino [simp]: "lookup (fs\<lparr>next_ino := k\<rparr>) q = lookup fs q"
  by (simp add: lookup_def)

lemma next_ino_put [simp]: "next_ino (put p n fs) = next_ino fs"
  by (simp add: put_def)

lemma walk_link_view:
  "(\<And>q. link_view fs' q = link_view fs q) \<Longrightarrow> walk fs' k p = walk fs k p"
proof (induction k arbitrary: p)
  case 0
  from 0 [of p] show ?case
    by (auto simp: link_view_def split: option.splits if_splits)
next
  case (Suc k)
  from Suc.prems [of p] Suc.IH [OF Suc.prems] show ?case
    by (auto simp: link_view_def split: option.splits if_splits)
qed

lemma walk_ends: "walk fs k p = Inr r \<Longrightarrow> link_view fs r = None"
  by (induction k arbitrary: p) (auto simp: link_view_def split: option.splits if_splits)

lemma link_view_put:
  "\<not> is_link n \<Longrightarrow> link_view fs r = None \<Longrightarrow> link_view (put r n fs) q = link_view fs q"
  by (auto simp: link_view_def split: option.splits if_splits)

lemma link_view_next_ino [simp]: "link_view (fs\<lparr>next_ino := k\<rparr>) q = link_view fs q"
  by (simp add: link_view_def)

lemma walk_next_ino [simp]: "walk (fs\<lparr>next_ino := k\<rparr>) j p = walk fs j p"
  by (rule walk_link_view) simp

lemma walk_put:
  "\<not> is_link n \<Longrightarrow> link_view fs r = None \<Longrightarrow> walk (put r n fs) k p = walk fs k p"
  by (rule walk_link_view) (rule link_view_put)

lemma inodes_ok_lookup: "inodes_ok fs \<Longrightarrow> lookup fs q = Some n \<Longrightarrow> n_ino n < next_ino fs"
  by (auto simp: inodes_ok_def lookup_def list_all_iff dest!: map_of_SomeD)

text \<open>\<open>chmod\<close> keeps the bits outside its mask and takes those inside it from the
  new mode; the type bits are outside, the owner's read and write bits inside.\<close>

lemma chmod_bits_outside:
  assumes "c AND chmod_mask = 0"
  shows "chmod_bits old m AND c = old AND c"
proof (rule bit_eqI)
  fix n
  from assms have "\<not> (bit c n \<and> bit chmod_mask n)"
    using bit_and_iff [of c chmod_mask n] by simp
  then show "bit (chmod_bits old m AND c) n \<longleftrightarrow> bit (old AND c) n"
    by (auto simp: chmod_bits_def bit_and_iff bit_or_iff bit_not_iff dest: bit_imp_le_length)
qed

lemma chmod_bits_inside:
  assumes "c AND NOT chmod_mask = 0"
  shows "chmod_bits old m AND c = m AND c"
proof (rule bit_eqI)
  fix n
  from assms have "\<not> (bit c n \<and> bit (NOT chmod_mask) n)"
    using bit_and_iff [of c "NOT chmod_mask" n] by simp
  then show "bit (chmod_bits old m AND c) n \<longleftrightarrow> bit (m AND c) n"
    by (auto simp: chmod_bits_def bit_and_iff bit_or_iff bit_not_iff dest: bit_imp_le_length)
qed


lemma chmod_mask_bits: "ModeDir AND chmod_mask = 0" "ModeSymlink AND chmod_mask = 0" "ModeNamedPipe AND chmod_mask = 0"
  "0x80 AND NOT chmod_mask = 0" "0x100 AND NOT chmod_mask = 0"
  by (simp_all add: chmod_mask_def ModeDir_def ModeSymlink_def ModeNamedPipe_def ModePerm_def ModeSetuid_def ModeSetgid_def ModeSticky_def)

subsection \<open>\<open>Copy\<close> on the file system in memory\<close>

text \<open>What the queries report of an entry, and the calls of the file system behind the
  record.\<close>

lemma info_simps [simp]:
  "Mode (info x n) = n_mode n" "Size (info x n) = n_size n" "Ino (info x n) = n_ino n"
  "Dev (info x n) = 1"
  by (simp_all add: info_def)

lemma specialfile_info [simp]:
  "specialfile (info x n) = (n_mode n AND ModeNamedPipe = ModeNamedPipe)"
  by (simp add: specialfile_def)

lemma IsSymlink_info [simp]: "IsSymlink (info x n) = is_link n"
  by (simp add: IsSymlink_def is_link_def)

lemma memsys_simps [simp]:
  "sys_stat memsys = mem_stat" "sys_lstat memsys = mem_lstat" "sys_readlink memsys = mem_readlink"
  "sys_symlink memsys = mem_symlink" "sys_open memsys = mem_open" "sys_create memsys = mem_create"
  "sys_copy memsys = mem_copy" "sys_close memsys = mem_close" "sys_chmod memsys = mem_chmod"
  "sys_ioctl memsys = mem_ioctl"
  by (simp_all add: memsys_def)

lemma link_view_put_same [simp]:
  "link_view (put r n fs) r = (if is_link n then Some (n_target n) else None)"
  by (simp add: link_view_def)

lemma chmod_bits_type [simp]:
  "chmod_bits old m AND ModeSymlink = old AND ModeSymlink"
  "chmod_bits old m AND ModeNamedPipe = old AND ModeNamedPipe"
  "chmod_bits old m AND ModeDir = old AND ModeDir"
  by (simp_all add: chmod_bits_outside chmod_mask_bits)

lemma chmod_bits_owner [simp]:
  "chmod_bits old m AND 0x80 = m AND 0x80"
  "chmod_bits old m AND 0x100 = m AND 0x100"
  by (simp_all add: chmod_bits_inside chmod_mask_bits)

lemma IsDir_chmod [simp]: "IsDir (chmod_bits old m) = IsDir old"
  by (simp add: IsDir_def)

lemma walk_put2:
  "\<not> is_link n \<Longrightarrow> \<not> is_link n' \<Longrightarrow> link_view fs r = None \<Longrightarrow>
     walk (put r n' (put r n fs)) k p = walk fs k p"
  by (simp add: walk_put)

text \<open>
  A run of \<open>CopyFile\<close> and \<open>CopyMode\<close> onto a destination that exists: when \<open>dst\<close>
  leads to a writable entry \<open>N\<close> that is neither directory nor pipe, \<open>src\<close> leads to
  another inode and is not copied as a link, and the name opened leads to a readable
  file whose size is the number of bytes it yields, the run succeeds and leaves those
  bytes at \<open>dst\<close>.
\<close>

lemma second_run:
  assumes p: "walk g 40 p = Inr r" "lookup g r = Some N" "\<not> IsDir (n_mode N)"
      "n_mode N AND ModeNamedPipe \<noteq> ModeNamedPipe" "n_mode N AND 0x80 \<noteq> 0"
    and s: "walk g 40 src = Inr rs" "lookup g rs = Some ns" "n_ino ns \<noteq> n_ino N"
    and l: "lookup g src = Some nl" "n_mode nl AND ModeNamedPipe \<noteq> ModeNamedPipe"
      "followSymlinks \<or> \<not> is_link nl"
    and t: "src' = (if is_link nl then n_target nl else src)" "walk g 40 src' = Inr rt"
      "lookup g rt = Some nt" "n_mode nt AND 0x100 \<noteq> 0" "\<not> IsDir (n_mode nt)"
      "n_size nt = of_nat (length D)" "D = (if rt = r then [] else n_data nt)"
    and lp: "lookup g p = Some np"
  shows "\<exists>g2 cs2. copy_file_and_mode memsys src p followSymlinks (g, cs) = (Returns (p, None), (g2, cs2))
           \<and> walk g2 40 p = Inr r \<and> (\<exists>N'. lookup g2 r = Some N' \<and> n_data N' = D)"
proof -
  define N1 where "N1 = N\<lparr>n_size := 0, n_data := []\<rparr>"
  define N2 where "N2 = N1\<lparr>n_size := of_nat (length D), n_data := D\<rparr>"
  define N3 where "N3 = N2\<lparr>n_mode := chmod_bits (n_mode N2) (n_mode ns)\<rparr>"
  define gc where "gc = put r N1 g"
  define gd where "gd = put r N2 gc"
  define g2 where "g2 = put r N3 gd"
  have nl: "link_view g r = None" "\<not> is_link N"
    using walk_ends [OF p(1)] p(2) by (auto simp: link_view_def split: if_splits)
  have N: "\<not> is_link N1" "\<not> is_link N2" "\<not> is_link N3" "\<not> IsDir (n_mode N1)"
    using nl(2) p(3) by (simp_all add: N1_def N2_def N3_def is_link_def)
  have rs: "rs \<noteq> r"
    using s p by auto
  have src: "src \<noteq> r"
  proof
    assume "src = r"
    with l(1) p(2) nl(2) have "\<not> is_link nl" by simp
    then have "walk g 40 src = Inr src"
      using l(1) by (simp add: numeral_eq_Suc)
    with s(1) \<open>src = r\<close> rs show False by simp
  qed
  have wc: "walk gc k x = walk g k x" for k x
    by (simp add: gc_def walk_put N nl)
  have lvc: "link_view gc r = None"
    by (simp add: gc_def N)
  have wd: "walk gd k x = walk g k x" for k x
    by (simp add: gd_def walk_put N lvc wc)
  have sf: "samefile memsys src p (g, c) = (False, (g, c @ [StatCall src, StatCall p]))" for c
    by (simp add: samefile_def os_calls mem_stat_def p s)
  have cf: "CopyFile memsys src p followSymlinks (g, cs) =
      copy_link_or_data memsys src (info src nl) p followSymlinks
        (g, cs @ [StatCall src, StatCall p, LstatCall src, StatCall p])"
    by (simp add: CopyFile_def sf os_calls mem_lstat_def mem_stat_def l p)
  have op: "mem_open src' g = (Inr (Handle rt), g)"
    by (simp add: mem_open_def t(2,3,4))
  have cr: "mem_create p g = (Inr (Handle r), gc)"
    by (simp add: mem_create_def p gc_def N1_def)
  have "lookup gc rt = Some (if rt = r then N1 else nt)"
    by (simp add: gc_def t(3))
  moreover have "n_data (if rt = r then N1 else nt) = D" "\<not> IsDir (n_mode (if rt = r then N1 else nt))"
    using t(5,7) N by (simp_all add: N1_def)
  ultimately have cp: "mem_copy (Handle r) (Handle rt) gc = ((of_nat (length D), None), gd)"
    by (simp add: mem_copy_def gd_def N2_def gc_def N1_def)
  have cd: "copy_data memsys src' (info src' nt) p (g, c) =
      (None, (gd, c @ [OpenCall src', CreateCall p, CopyCall (Handle r) (Handle rt),
         CloseCall (Handle r), CloseCall (Handle rt)]))" for c
    by (simp add: copy_data_def os_calls op cr cp t(6) mem_close_def)
  have "\<exists>c. copy_link_or_data memsys src (info src nl) p followSymlinks
      (g, cs @ [StatCall src, StatCall p, LstatCall src, StatCall p]) = (None, (gd, c))"
  proof (cases "is_link nl")
    case True
    with l(3) t(1) have "followSymlinks" "src' = n_target nl" by simp_all
    with True show ?thesis
      using t(2,3) cd
      by (simp add: copy_link_or_data_def os_calls mem_readlink_def mem_stat_def l)
  next
    case False
    with t(1) have "src' = src" by simp
    with False t(3) l(1) have "nt = nl" 
      using t(2) by (simp add: numeral_eq_Suc)
    with False \<open>src' = src\<close> show ?thesis
      using cd by (simp add: copy_link_or_data_def)
  qed
  then obtain c where cl: "CopyFile memsys src p followSymlinks (g, cs) = (None, (gd, c))"
    using cf by auto
  have ld: "lookup gd src = Some nl" "lookup gd rs = Some ns" "lookup gd r = Some N2"
    "lookup gd p = Some (if p = r then N2 else np)"
    using src rs l s lp by (simp_all add: gd_def gc_def)
  have cm: "CopyMode memsys src p followSymlinks (gd, c) =
      (Returns None, (g2, c @ [LstatCall src, LstatCall p, StatCall src, ChmodCall p (n_mode ns)]))"
    using l(3)
    by (auto simp: CopyMode_def os_calls mem_lstat_def mem_stat_def mem_chmod_def ld wd p s
        g2_def N3_def)
  have "copy_file_and_mode memsys src p followSymlinks (g, cs) =
      (Returns (p, None), (g2, c @ [LstatCall src, LstatCall p, StatCall src, ChmodCall p (n_mode ns)]))"
    by (simp add: copy_file_and_mode_def cl cm)
  moreover have "walk g2 40 p = Inr r"
    by (simp add: g2_def walk_put N gd_def lvc wc p wd)
  moreover have "lookup g2 r = Some N3" "n_data N3 = D"
    by (simp_all add: g2_def N3_def N2_def)
  ultimately show ?thesis
    by blast
qed


text \<open>What follows from a run that succeeded, call by call.\<close>

lemma info_or_nil_Some [simp]: "info_or_nil r = Some i \<longleftrightarrow> r = Inr i"
  by (cases r) simp_all

lemma walk_Inl: "walk g k x = Inl e \<Longrightarrow> e = ELOOP"
  by (induction k arbitrary: x) (auto split: option.splits if_splits)

lemma copy_file_and_mode_ok:
  assumes "copy_file_and_mode sys src p f s = (Returns (q, None), s1)"
  shows "q = p \<and> (\<exists>sm. CopyFile sys src p f s = (None, sm) \<and> CopyMode sys src p f sm = (Returns None, s1))"
  using assms
  by (auto simp: copy_file_and_mode_def split: prod.splits option.splits exit.splits)

lemma CopyMode_ok:
  assumes "CopyMode sys src p f s = (Returns None, s1)" and "f \<or> \<not> IsSymlink a"
    and "sys_lstat sys src (fst s) = Inr a"
  shows "\<exists>b c. sys_lstat sys p (fst s) = Inr b \<and> sys_stat sys src (fst s) = Inr c
           \<and> sys_chmod sys p (Mode c) (fst s) = (None, fst s1)"
  using assms
  by (auto simp: CopyMode_def os_calls split: prod.splits sum.splits option.splits if_splits)

lemma CopyFile_ok:
  assumes "CopyFile sys src p f s = (None, s1)"
  shows "\<exists>li c. \<not> SameFile (info_or_nil (sys_stat sys src (fst s))) (info_or_nil (sys_stat sys p (fst s)))
           \<and> sys_lstat sys src (fst s) = Inr li \<and> \<not> specialfile li
           \<and> (case sys_stat sys p (fst s) of Inl e \<Rightarrow> IsNotExist e | Inr d \<Rightarrow> \<not> specialfile d)
           \<and> copy_link_or_data sys src li p f (fst s, c) = (None, s1)"
  using assms
  by (auto simp: CopyFile_def samefile_def os_calls split: prod.splits sum.splits bool.splits if_splits)

lemma copy_link_or_data_ok:
  assumes "copy_link_or_data sys src li p f s = (None, s1)" and "f \<or> \<not> IsSymlink li"
  shows "\<exists>src' st c.
           (if IsSymlink li
            then sys_readlink sys src (fst s) = Inr src' \<and> sys_stat sys src' (fst s) = Inr st
            else src' = src \<and> st = li)
           \<and> copy_data sys src' st p (fst s, c) = (None, s1)"
  using assms
  by (cases s) (auto simp: copy_link_or_data_def os_calls split: prod.splits sum.splits if_splits)

lemma copy_data_ok:
  assumes "copy_data memsys src' st p s = (None, s1)"
  shows "\<exists>h1 h2 w1 w2. mem_open src' (fst s) = (Inr h1, w1) \<and> mem_create p w1 = (Inr h2, w2)
           \<and> mem_copy h2 h1 w2 = ((Size st, None), fst s1)"
  using assms
  by (auto simp: copy_data_def os_calls mem_close_def split: prod.splits sum.splits option.splits if_splits)

lemma mem_stat_Inr:
  assumes "mem_stat x g = Inr i"
  shows "\<exists>q n. walk g 40 x = Inr q \<and> lookup g q = Some n \<and> i = info x n"
  using assms by (auto simp: mem_stat_def split: sum.splits option.splits)

lemma mem_stat_notexist:
  assumes "mem_stat x g = Inl e" and "IsNotExist e"
  shows "\<exists>q. walk g 40 x = Inr q \<and> lookup g q = None"
  using assms by (auto simp: mem_stat_def IsNotExist_def split: sum.splits option.splits dest: walk_Inl)

lemma mem_lstat_Inr:
  assumes "mem_lstat x g = Inr i"
  shows "\<exists>n. lookup g x = Some n \<and> i = info x n"
  using assms by (auto simp: mem_lstat_def split: option.splits)

lemma mem_readlink_Inr:
  assumes "mem_readlink x g = Inr t"
  shows "\<exists>n. lookup g x = Some n \<and> is_link n \<and> t = n_target n"
  using assms by (auto simp: mem_readlink_def split: option.splits if_splits)

lemma mem_open_Inr:
  assumes "mem_open x g = (Inr h, g')"
  shows "g' = g \<and> (\<exists>q n. walk g 40 x = Inr q \<and> lookup g q = Some n \<and> n_mode n AND 0x100 \<noteq> 0 \<and> h = Handle q)"
  using assms by (auto simp: mem_open_def split: sum.splits option.splits if_splits)

lemma mem_create_Inr:
  assumes "mem_create x g = (Inr h, g')"
  shows "\<exists>q n g0. walk g 40 x = Inr q \<and> h = Handle q
           \<and> g' = put q (n\<lparr>n_size := 0, n_data := []\<rparr>) g0
           \<and> (\<forall>k y. walk g0 k y = walk g k y) \<and> (\<forall>y. lookup g0 y = lookup g y)
           \<and> \<not> IsDir (n_mode n)
           \<and> (case lookup g q of
                 None \<Rightarrow> n = fresh_node g
               | Some nd \<Rightarrow> n = nd \<and> n_mode nd AND 0x80 \<noteq> 0)"
  using assms
  by (auto simp: mem_create_def fresh_node_def IsDir_def ModeDir_def split: sum.splits option.splits if_splits)

lemma mem_copy_ok:
  assumes "mem_copy (Handle d) (Handle s) g = ((k, None), g')"
  shows "\<exists>ns nd. lookup g s = Some ns \<and> \<not> IsDir (n_mode ns) \<and> lookup g d = Some nd
           \<and> k = of_nat (length (n_data ns))
           \<and> g' = put d (nd\<lparr>n_size := of_nat (length (n_data ns @ drop (length (n_data ns)) (n_data nd))),
                              n_data := n_data ns @ drop (length (n_data ns)) (n_data nd)\<rparr>) g"
  using assms by (auto simp: mem_copy_def Let_def split: option.splits if_splits)

lemma mem_chmod_ok:
  assumes "mem_chmod x m g = (None, g')"
  shows "\<exists>q n. walk g 40 x = Inr q \<and> lookup g q = Some n
           \<and> g' = put q (n\<lparr>n_mode := chmod_bits (n_mode n) m\<rparr>) g"
  using assms by (auto simp: mem_chmod_def split: sum.splits option.splits)

text \<open>
  A run of \<open>CopyFile\<close> and \<open>CopyMode\<close> that succeeded has changed the entry \<open>dst\<close> leads
  to and nothing else, and leaves a world on which \<open>second_run\<close> applies.
\<close>

lemma link_view_lookup: "lookup g r = lookup fs r \<Longrightarrow> link_view g r = link_view fs r"
  by (simp add: link_view_def)

lemma walk_self: "lookup fs x = Some n \<Longrightarrow> \<not> is_link n \<Longrightarrow> walk fs 40 x = Inr x"
  by (simp add: numeral_eq_Suc)

lemma first_run:
  assumes ok: "inodes_ok fs"
    and si: "mem_stat src fs = Inr si" "Mode si AND 0x80 \<noteq> 0" "Mode si AND 0x100 \<noteq> 0"
    and li: "mem_lstat src fs = Inr li" "f \<or> \<not> IsSymlink li"
    and run: "copy_file_and_mode memsys src p f (fs, cs) = (Returns (q, None), (fs1, cs1))"
  shows "q = p \<and> (\<exists>r N rs ns nl rt nt D np.
      walk fs 40 p = Inr r \<and> (\<forall>k x. walk fs1 k x = walk fs k x)
      \<and> (\<forall>y. y \<noteq> r \<longrightarrow> lookup fs1 y = lookup fs y)
      \<and> (case lookup fs r of None \<Rightarrow> True | Some nd \<Rightarrow> \<not> IsDir (n_mode nd))
      \<and> lookup fs1 r = Some N \<and> \<not> IsDir (n_mode N)
      \<and> n_mode N AND ModeNamedPipe \<noteq> ModeNamedPipe \<and> n_mode N AND 0x80 \<noteq> 0
      \<and> n_data N = D
      \<and> walk fs 40 src = Inr rs \<and> lookup fs1 rs = Some ns \<and> n_ino ns \<noteq> n_ino N
      \<and> lookup fs1 src = Some nl \<and> n_mode nl AND ModeNamedPipe \<noteq> ModeNamedPipe
      \<and> (f \<or> \<not> is_link nl)
      \<and> walk fs 40 (if is_link nl then n_target nl else src) = Inr rt
      \<and> lookup fs1 rt = Some nt \<and> n_mode nt AND 0x100 \<noteq> 0 \<and> \<not> IsDir (n_mode nt)
      \<and> n_size nt = of_nat (length D) \<and> D = (if rt = r then [] else n_data nt)
      \<and> lookup fs1 p = Some np)"
proof -
  from copy_file_and_mode_ok [OF run] obtain sm where qp: "q = p"
    and cf: "CopyFile memsys src p f (fs, cs) = (None, sm)"
    and cm: "CopyMode memsys src p f sm = (Returns None, (fs1, cs1))"
    by auto
  from CopyFile_ok [OF cf] li(1) obtain c where
    nsf: "\<not> SameFile (info_or_nil (mem_stat src fs)) (info_or_nil (mem_stat p fs))"
    and nsp: "\<not> specialfile li"
    and dstc: "case mem_stat p fs of Inl e \<Rightarrow> IsNotExist e | Inr d \<Rightarrow> \<not> specialfile d"
    and cl: "copy_link_or_data memsys src li p f (fs, c) = (None, sm)"
    by auto
  from copy_link_or_data_ok [OF cl li(2), unfolded memsys_simps fst_conv] obtain src' st c' where
    res: "if IsSymlink li
          then mem_readlink src fs = Inr src' \<and> mem_stat src' fs = Inr st
          else src' = src \<and> st = li"
    and cd: "copy_data memsys src' st p (fs, c') = (None, sm)"
    by blast
  from copy_data_ok [OF cd] obtain h1 h2 w1 gc where
    op: "mem_open src' fs = (Inr h1, w1)" and cr: "mem_create p w1 = (Inr h2, gc)"
    and cp: "mem_copy h2 h1 gc = ((Size st, None), fst sm)"
    by auto
  from mem_open_Inr [OF op] obtain rt nt where w1: "w1 = fs"
    and rt: "walk fs 40 src' = Inr rt" "lookup fs rt = Some nt" "n_mode nt AND 0x100 \<noteq> 0"
    and h1: "h1 = Handle rt"
    by auto
  from mem_create_Inr [OF cr [unfolded w1]] obtain r n0 g0 where
    r: "walk fs 40 p = Inr r" and h2: "h2 = Handle r"
    and gc: "gc = put r (n0\<lparr>n_size := 0, n_data := []\<rparr>) g0"
    and g0: "\<And>k y. walk g0 k y = walk fs k y" "\<And>y. lookup g0 y = lookup fs y"
    and n0: "\<not> IsDir (n_mode n0)"
      "case lookup fs r of None \<Rightarrow> n0 = fresh_node fs | Some nd \<Rightarrow> n0 = nd \<and> n_mode nd AND 0x80 \<noteq> 0"
    by auto
  define N1 where "N1 = n0\<lparr>n_size := 0, n_data := []\<rparr>"
  define D where "D = (if rt = r then [] else n_data nt)"
  define N2 where "N2 = N1\<lparr>n_size := of_nat (length D), n_data := D\<rparr>"
  obtain nl where nl: "lookup fs src = Some nl" "li = info src nl"
    using mem_lstat_Inr [OF li(1)] by auto
  obtain rs ns where rs: "walk fs 40 src = Inr rs" "lookup fs rs = Some ns" "si = info src ns"
    using mem_stat_Inr [OF si(1)] by auto
  have lv: "link_view fs r = None"
    by (rule walk_ends [OF r])
  then have lv0: "link_view g0 r = None"
    by (simp add: link_view_lookup [of g0 r fs] g0)
  have nlink: "\<not> is_link n0"
    using n0(2) lv by (auto simp: fresh_node_def is_link_def ModeSymlink_def link_view_def
        split: option.splits if_splits)
  have N12: "\<not> is_link N1" "\<not> is_link N2" "\<not> IsDir (n_mode N1)" "\<not> IsDir (n_mode N2)"
    using nlink n0(1) by (simp_all add: N1_def N2_def is_link_def)
  have lgc: "lookup gc y = (if y = r then Some N1 else lookup fs y)" for y
    by (simp add: gc N1_def g0)
  have wgc: "walk gc k y = walk fs k y" for k y
    by (simp add: gc walk_put nlink [unfolded is_link_def] is_link_def lv0 g0)
  from mem_copy_ok [OF cp [unfolded h1 h2]] obtain ns' where
    ns': "lookup gc rt = Some ns'" "\<not> IsDir (n_mode ns')"
    and sz: "Size st = of_nat (length (n_data ns'))"
    and gd: "fst sm = put r (N1\<lparr>n_size := of_nat (length (n_data ns' @ drop (length (n_data ns')) (n_data N1))),
                     n_data := n_data ns' @ drop (length (n_data ns')) (n_data N1)\<rparr>) gc"
    by (auto simp: lgc)
  have ns'_eq: "ns' = (if rt = r then N1 else nt)"
    using ns'(1) rt(2) by (simp add: lgc split: if_splits)
  have D: "n_data ns' = D"
    by (simp add: ns'_eq D_def N1_def)
  have gd': "fst sm = put r N2 gc"
    by (simp add: gd D N2_def N1_def)
  have lgd: "lookup (fst sm) y = (if y = r then Some N2 else lookup fs y)" for y
    by (simp add: gd' lgc)
  have lvgc: "link_view gc r = None"
    using lgc [of r] N12(1) by (simp add: link_view_def)
  have wgd: "walk (fst sm) k y = walk fs k y" for k y
    by (simp add: gd' walk_put N12 lvgc wgc)
  have lvgd: "link_view (fst sm) r = None"
    using lgd [of r] N12(2) by (simp add: link_view_def)
  have rs_r: "rs \<noteq> r"
  proof
    assume "rs = r"
    with rs(2) obtain nd where nd: "lookup fs r = Some nd" "nd = ns" by simp
    with r have "mem_stat p fs = Inr (info p ns)" by (simp add: mem_stat_def)
    moreover have "mem_stat src fs = Inr (info src ns)" using si(1) rs(3) by simp
    ultimately show False using nsf by simp
  qed
  have src_r: "src \<noteq> r"
  proof
    assume "src = r"
    with nl(1) lv have "\<not> is_link nl" by (simp add: link_view_def split: if_splits)
    with nl(1) have "walk fs 40 src = Inr src" by (rule walk_self)
    with rs(1) \<open>src = r\<close> rs_r show False by simp
  qed
  have lsm: "sys_lstat memsys src (fst sm) = Inr li"
    using src_r nl by (simp add: mem_lstat_def lgd)
  from CopyMode_ok [OF cm li(2) lsm] obtain b cc where
    lp: "mem_lstat p (fst sm) = Inr b" and sc: "mem_stat src (fst sm) = Inr cc"
    and ch: "mem_chmod p (Mode cc) (fst sm) = (None, fs1)"
    by auto
  have "cc = info src ns"
    using sc rs(1,2) rs_r by (simp add: mem_stat_def wgd lgd)
  then have cc: "Mode cc = n_mode ns"
    by simp
  define N3 where "N3 = N2\<lparr>n_mode := chmod_bits (n_mode N2) (n_mode ns)\<rparr>"
  have fs1: "fs1 = put r N3 (fst sm)"
    using mem_chmod_ok [OF ch] r by (auto simp: wgd lgd cc N3_def)
  have N3: "\<not> is_link N3" "\<not> IsDir (n_mode N3)" "n_data N3 = D" "n_size N3 = of_nat (length D)"
      "n_ino N3 = n_ino n0" "n_mode N3 AND 0x80 \<noteq> 0" "n_mode N3 AND 0x100 \<noteq> 0"
      "n_mode N3 AND ModeNamedPipe = n_mode n0 AND ModeNamedPipe"
    using N12 si(2,3) rs(3) by (simp_all add: N3_def N2_def N1_def is_link_def)
  have l1: "lookup fs1 y = (if y = r then Some N3 else lookup fs y)" for y
    by (simp add: fs1 lgd)
  have w1': "walk fs1 k y = walk fs k y" for k y
    by (simp add: fs1 walk_put N3 lvgd wgd)
  have pipe: "n_mode n0 AND ModeNamedPipe \<noteq> ModeNamedPipe"
  proof (cases "lookup fs r")
    case None
    with n0(2) show ?thesis
      by (simp add: fresh_node_def ModeNamedPipe_def)
  next
    case (Some nd)
    with r have "mem_stat p fs = Inr (info p nd)" by (simp add: mem_stat_def)
    with dstc Some n0(2) show ?thesis by simp
  qed
  have ino: "n_ino ns \<noteq> n_ino n0"
  proof (cases "lookup fs r")
    case None
    with n0(2) inodes_ok_lookup [OF ok rs(2)] show ?thesis
      by (simp add: fresh_node_def)
  next
    case (Some nd)
    with r have "mem_stat p fs = Inr (info p nd)" by (simp add: mem_stat_def)
    moreover have "mem_stat src fs = Inr (info src ns)" using si(1) rs(3) by simp
    ultimately show ?thesis using nsf Some n0(2) by simp
  qed
  have dirr: "case lookup fs r of None \<Rightarrow> True | Some nd \<Rightarrow> \<not> IsDir (n_mode nd)"
    using n0 by (simp split: option.splits)
  have src'_eq: "src' = (if is_link nl then n_target nl else src)"
  proof (cases "is_link nl")
    case True
    with res nl(2) have "mem_readlink src fs = Inr src'" by simp
    from mem_readlink_Inr [OF this] nl(1) True show ?thesis by auto
  next
    case False
    with res nl(2) show ?thesis by simp
  qed
  have st_size: "rt \<noteq> r \<Longrightarrow> n_size nt = of_nat (length D)"
  proof -
    assume a: "rt \<noteq> r"
    have "Size st = n_size nt"
    proof (cases "is_link nl")
      case True
      with res nl(2) have "mem_stat src' fs = Inr st" by simp
      with rt(1,2) have "st = info src' nt" by (simp add: mem_stat_def)
      then show ?thesis by simp
    next
      case False
      with res nl(2) have e: "src' = src" "st = info src nl" by simp_all
      from walk_self [OF nl(1) False] rt(1) e have "rt = src" by simp
      with rt(2) nl(1) e show ?thesis by simp
    qed
    with sz D show ?thesis by simp
  qed
  define nt' where "nt' = (if rt = r then N3 else nt)"
  have nt': "lookup fs1 rt = Some nt'" "n_mode nt' AND 0x100 \<noteq> 0" "\<not> IsDir (n_mode nt')"
      "n_size nt' = of_nat (length D)" "D = (if rt = r then [] else n_data nt')"
    using rt N3 ns'(2) st_size by (auto simp: nt'_def l1 ns'_eq D_def)
  obtain np where np: "lookup fs1 p = Some np"
    using mem_lstat_Inr [OF lp] by (cases "p = r") (auto simp: l1 lgd)
  have "walk fs 40 p = Inr r \<and> (\<forall>k x. walk fs1 k x = walk fs k x)
      \<and> (\<forall>y. y \<noteq> r \<longrightarrow> lookup fs1 y = lookup fs y)
      \<and> (case lookup fs r of None \<Rightarrow> True | Some nd \<Rightarrow> \<not> IsDir (n_mode nd))
      \<and> lookup fs1 r = Some N3 \<and> \<not> IsDir (n_mode N3)
      \<and> n_mode N3 AND ModeNamedPipe \<noteq> ModeNamedPipe \<and> n_mode N3 AND 0x80 \<noteq> 0
      \<and> n_data N3 = D
      \<and> walk fs 40 src = Inr rs \<and> lookup fs1 rs = Some ns \<and> n_ino ns \<noteq> n_ino N3
      \<and> lookup fs1 src = Some nl \<and> n_mode nl AND ModeNamedPipe \<noteq> ModeNamedPipe
      \<and> (f \<or> \<not> is_link nl)
      \<and> walk fs 40 (if is_link nl then n_target nl else src) = Inr rt
      \<and> lookup fs1 rt = Some nt' \<and> n_mode nt' AND 0x100 \<noteq> 0 \<and> \<not> IsDir (n_mode nt')
      \<and> n_size nt' = of_nat (length D) \<and> D = (if rt = r then [] else n_data nt')
      \<and> lookup fs1 p = Some np"
    using r w1' l1 dirr N3 pipe rs rs_r ino src_r nl nsp li(2) rt(1) src'_eq nt' np
    by (simp del: chmod_bits_type)
  with qp show ?thesis by blast
qed

lemma Copy_ok:
  assumes "Copy memsys src dst f (fs, cs) = (Returns (p, None), s1)"
  shows "(\<exists>c. copy_file_and_mode memsys src p f (fs, c) = (Returns (p, None), s1))
       \<and> (case mem_stat dst fs of
             Inr di \<Rightarrow> p = (if IsDir (Mode di) then Join dst (Base src) else dst)
           | Inl e \<Rightarrow> IsNotExist e \<and> p = dst)"
proof (cases "mem_stat dst fs")
  case (Inl e)
  with assms have e: "IsNotExist e"
    and "copy_file_and_mode memsys src dst f (fs, cs @ [StatCall dst]) = (Returns (p, None), s1)"
    by (auto simp: Copy_def os_calls split: if_splits)
  with copy_file_and_mode_ok [OF this(2)] Inl show ?thesis
    by auto
next
  case (Inr di)
  with assms have "copy_file_and_mode memsys src (if IsDir (Mode di) then Join dst (Base src) else dst) f
      (fs, cs @ [StatCall dst]) = (Returns (p, None), s1)"
    by (auto simp: Copy_def os_calls)
  with copy_file_and_mode_ok [OF this] Inr show ?thesis
    by auto
qed

text \<open>
  Claim C9 says that a second \<open>Copy(src, dst, followSymlinks)\<close> overwrites the
  destination and returns no error, for every unchanged \<open>src\<close> and every \<open>dst\<close> that is
  not the same file. A link copied as a link is made by \<open>os.Symlink\<close>, which does not
  overwrite: for a dangling link (which is never the same file as anything) the first
  call succeeds and the second fails with \<open>EEXIST\<close>. And the copy of a read-only file
  is read-only: the second \<open>os.Create\<close> fails with \<open>EACCES\<close>.
\<close>

theorem Copy_twice_counterexample:
  "fst (Copy memsys ''/a/dangling'' ''/b/d'' False (world_abs, [])) = Returns (''/b/d'', None)
   \<and> fst (samefile memsys ''/a/dangling'' ''/b/d''
        (snd (Copy memsys ''/a/dangling'' ''/b/d'' False (world_abs, [])))) = False
   \<and> fst (Copy memsys ''/a/dangling'' ''/b/d'' False
        (snd (Copy memsys ''/a/dangling'' ''/b/d'' False (world_abs, [])))) =
       Returns (''/b/d'', Some (LinkError ''symlink'' ''/a/dangling'' ''/b/d'' EEXIST))
   \<and> fst (Copy memsys ''/a/ro'' ''/b/d'' True (world_abs, [])) = Returns (''/b/d'', None)
   \<and> fst (Copy memsys ''/a/ro'' ''/b/d'' True
        (snd (Copy memsys ''/a/ro'' ''/b/d'' True (world_abs, [])))) =
       Returns (''/b/d'', Some (PathError ''open'' ''/b/d'' EACCES))"
  by code_simp

text \<open>
  Claim C9, amended. On the file system in memory, with the inode numbers in use
  below the next free one: let \<open>src\<close> resolve to a file whose owner may write it (bit
  \<open>0200\<close>) and read it (bit \<open>0400\<close>), and let \<open>src\<close> not be copied as a link
  (\<open>followSymlinks\<close> is set, or \<open>src\<close> is not a symbolic link). If
  \<open>Copy(src, dst, followSymlinks)\<close> returns the path \<open>p\<close> and no error, then the same call
  made again returns \<open>p\<close> and no error, and the bytes read at \<open>p\<close> after the second call
  are the bytes read at \<open>p\<close> after the first.
\<close>

theorem Copy_twice:
  assumes ok: "inodes_ok fs"
    and si: "sys_stat memsys src fs = Inr srcInfo" "Mode srcInfo AND 0x80 \<noteq> 0"
      "Mode srcInfo AND 0x100 \<noteq> 0"
    and li: "sys_lstat memsys src fs = Inr srcStat" "followSymlinks \<or> \<not> IsSymlink srcStat"
    and run: "Copy memsys src dst followSymlinks (fs, cs) = (Returns (p, None), s1)"
  shows "fst (Copy memsys src dst followSymlinks s1) = Returns (p, None)
       \<and> (\<exists>bytes. read_file (world s1) p = Inr bytes
             \<and> read_file (world (snd (Copy memsys src dst followSymlinks s1))) p = Inr bytes)"
proof -
  obtain fs1 cs1 where s1: "s1 = (fs1, cs1)"
    by (cases s1)
  from Copy_ok [OF run] obtain c where
    cm: "copy_file_and_mode memsys src p followSymlinks (fs, c) = (Returns (p, None), (fs1, cs1))"
    and dst: "case mem_stat dst fs of
        Inr di \<Rightarrow> p = (if IsDir (Mode di) then Join dst (Base src) else dst)
      | Inl e \<Rightarrow> IsNotExist e \<and> p = dst"
    by (auto simp: s1)
  from first_run [OF ok si [unfolded memsys_simps] li [unfolded memsys_simps] cm]
  obtain r N rs ns nl rt nt D np where
    r: "walk fs 40 p = Inr r" and w: "\<And>k x. walk fs1 k x = walk fs k x"
    and lk: "\<And>y. y \<noteq> r \<Longrightarrow> lookup fs1 y = lookup fs y"
    and dirr: "case lookup fs r of None \<Rightarrow> True | Some nd \<Rightarrow> \<not> IsDir (n_mode nd)"
    and N: "lookup fs1 r = Some N" "\<not> IsDir (n_mode N)"
      "n_mode N AND ModeNamedPipe \<noteq> ModeNamedPipe" "n_mode N AND 0x80 \<noteq> 0"
    and D: "n_data N = D"
    and rs: "walk fs 40 src = Inr rs" "lookup fs1 rs = Some ns" "n_ino ns \<noteq> n_ino N"
    and nl: "lookup fs1 src = Some nl" "n_mode nl AND ModeNamedPipe \<noteq> ModeNamedPipe"
      "followSymlinks \<or> \<not> is_link nl"
    and rt: "walk fs 40 (if is_link nl then n_target nl else src) = Inr rt"
      "lookup fs1 rt = Some nt" "n_mode nt AND 0x100 \<noteq> 0" "\<not> IsDir (n_mode nt)"
      "n_size nt = of_nat (length D)" "D = (if rt = r then [] else n_data nt)"
    and np: "lookup fs1 p = Some np"
    by blast
  have st: "mem_stat dst fs1 = Inr di' \<Longrightarrow> (if IsDir (Mode di') then Join dst (Base src) else dst) = p"
    for di'
  proof (cases "mem_stat dst fs")
    case (Inl e)
    with dst have "p = dst" by simp
    moreover assume "mem_stat dst fs1 = Inr di'"
    ultimately have "di' = info dst N"
      using r N(1) by (simp add: mem_stat_def w)
    with N(2) \<open>p = dst\<close> show ?thesis by simp
  next
    case (Inr di)
    assume a: "mem_stat dst fs1 = Inr di'"
    from mem_stat_Inr [OF Inr] obtain q0 n0 where
      q0: "walk fs 40 dst = Inr q0" "lookup fs q0 = Some n0" "di = info dst n0"
      by auto
    show ?thesis
    proof (cases "IsDir (n_mode n0)")
      case True
      with q0 dirr have "q0 \<noteq> r" by auto
      with a q0 have "di' = di" by (simp add: mem_stat_def w lk)
      with dst Inr show ?thesis by simp
    next
      case False
      with dst Inr q0 have "p = dst" by simp
      with a r N(1) have "di' = info dst N" by (simp add: mem_stat_def w)
      with N(2) \<open>p = dst\<close> show ?thesis by simp
    qed
  qed
  have ex: "\<exists>di'. mem_stat dst fs1 = Inr di'"
  proof (cases "mem_stat dst fs")
    case (Inl e)
    with dst have "p = dst" by simp
    with r N(1) show ?thesis by (simp add: mem_stat_def w)
  next
    case (Inr di)
    from mem_stat_Inr [OF Inr] obtain q0 n0 where
      q0: "walk fs 40 dst = Inr q0" "lookup fs q0 = Some n0"
      by auto
    then show ?thesis
      using N(1) lk [of q0] by (cases "q0 = r") (simp_all add: mem_stat_def w)
  qed
  have c2: "Copy memsys src dst followSymlinks (fs1, cs1) =
      copy_file_and_mode memsys src p followSymlinks (fs1, cs1 @ [StatCall dst])"
    using ex st by (auto simp: Copy_def os_calls)
  from second_run [of fs1 p r N src rs ns nl followSymlinks _ rt nt D np "cs1 @ [StatCall dst]",
      OF _ N(1,2,3,4) _ rs(2,3) nl refl _ rt(2-) np]
    r rs(1) rt(1)
  obtain g2 cs2 N' where
    run2: "copy_file_and_mode memsys src p followSymlinks (fs1, cs1 @ [StatCall dst]) =
      (Returns (p, None), (g2, cs2))"
    and g2: "walk g2 40 p = Inr r" "lookup g2 r = Some N'" "n_data N' = D"
    by (auto simp: w)
  have "read_file fs1 p = Inr D"
    using r N(1) D by (simp add: read_file_def w)
  moreover have "read_file g2 p = Inr D"
    using g2 by (simp add: read_file_def)
  ultimately show ?thesis
    by (simp add: s1 c2 run2 world_def)
qed

text \<open>A regular file copied twice into a directory.\<close>

theorem Copy_twice_witness:
  "inodes_ok world_abs
   \<and> fst (Copy memsys ''/a/t'' ''/b'' False (world_abs, [])) = Returns (''/b/t'', None)
   \<and> fst (Copy memsys ''/a/t'' ''/b'' False
        (snd (Copy memsys ''/a/t'' ''/b'' False (world_abs, [])))) = Returns (''/b/t'', None)
   \<and> read_file (world (snd (Copy memsys ''/a/t'' ''/b'' False (world_abs, [])))) ''/b/t'' =
        Inr [104, 105]
   \<and> read_file (world (snd (Copy memsys ''/a/t'' ''/b'' False
        (snd (Copy memsys ''/a/t'' ''/b'' False (world_abs, [])))))) ''/b/t'' = Inr [104, 105]"
proof -
  let ?t = "info ''/a/t'' (regular 2 0x1A4 [104, 105])"
  define s1 where "s1 = snd (Copy memsys ''/a/t'' ''/b'' False (world_abs, []))"
  have ok: "inodes_ok world_abs"
    by code_simp
  have si: "sys_stat memsys ''/a/t'' world_abs = Inr ?t" "Mode ?t AND 0x80 \<noteq> 0"
    "Mode ?t AND 0x100 \<noteq> 0"
    by code_simp+
  have li: "sys_lstat memsys ''/a/t'' world_abs = Inr ?t" "False \<or> \<not> IsSymlink ?t"
    by code_simp+
  have run: "Copy memsys ''/a/t'' ''/b'' False (world_abs, []) = (Returns (''/b/t'', None), s1)"
    unfolding s1_def by code_simp
  have r1: "read_file (world s1) ''/b/t'' = Inr [104, 105]"
    unfolding s1_def by code_simp
  have a: "fst (Copy memsys ''/a/t'' ''/b'' False (world_abs, [])) = Returns (''/b/t'', None)"
    by code_simp
  from Copy_twice [OF ok si li run] r1
  have c: "fst (Copy memsys ''/a/t'' ''/b'' False s1) = Returns (''/b/t'', None)
      \<and> read_file (world (snd (Copy memsys ''/a/t'' ''/b'' False s1))) ''/b/t'' = Inr [104, 105]"
    by auto
  show ?thesis
    using ok a r1 [unfolded s1_def] c [unfolded s1_def] by simp
qed

text \<open>And for a source that is not a symbolic link the contents do match: after a
  \<open>Copy\<close> that succeeded, the bytes read at the path returned are the bytes of \<open>src\<close>.\<close>

lemma Copy_contents_match_source:
  assumes ok: "inodes_ok fs"
    and si: "sys_stat memsys src fs = Inr srcInfo" "Mode srcInfo AND 0x80 \<noteq> 0"
      "Mode srcInfo AND 0x100 \<noteq> 0"
    and li: "sys_lstat memsys src fs = Inr srcStat" "\<not> IsSymlink srcStat"
    and run: "Copy memsys src dst followSymlinks (fs, cs) = (Returns (p, None), s1)"
  shows "\<exists>bytes. read_file fs src = Inr bytes \<and> read_file (world s1) p = Inr bytes"
proof -
  obtain fs1 cs1 where s1: "s1 = (fs1, cs1)"
    by (cases s1)
  from Copy_ok [OF run] obtain c where
    cm: "copy_file_and_mode memsys src p followSymlinks (fs, c) = (Returns (p, None), (fs1, cs1))"
    by (auto simp: s1)
  from li(2) have li2: "followSymlinks \<or> \<not> IsSymlink srcStat"
    by simp
  from first_run [OF ok si [unfolded memsys_simps] li(1) [unfolded memsys_simps] li2 cm]
  obtain r N rs ns nl rt nt D where
    r: "walk fs 40 p = Inr r" and w: "\<And>k x. walk fs1 k x = walk fs k x"
    and lk: "\<And>y. y \<noteq> r \<Longrightarrow> lookup fs1 y = lookup fs y"
    and N: "lookup fs1 r = Some N" "n_data N = D"
    and rs: "walk fs 40 src = Inr rs" "lookup fs1 rs = Some ns" "n_ino ns \<noteq> n_ino N"
    and nl: "lookup fs1 src = Some nl"
    and rt: "walk fs 40 (if is_link nl then n_target nl else src) = Inr rt"
      "lookup fs1 rt = Some nt" "D = (if rt = r then [] else n_data nt)"
    by blast
  have rsr: "rs \<noteq> r"
    using rs N by auto
  obtain n where n: "lookup fs src = Some n" "srcStat = info src n"
    using mem_lstat_Inr [OF li(1) [unfolded memsys_simps]] by auto
  with li(2) have nlink: "\<not> is_link n"
    by simp
  from walk_self [OF n(1) nlink] rs(1) have "rs = src"
    by simp
  with rsr lk [of src] n(1) nl have "nl = n" "src \<noteq> r"
    by simp_all
  with nlink rt rs(1) \<open>rs = src\<close> nl have "rt = src" "nt = n"
    by simp_all
  with rt(3) \<open>src \<noteq> r\<close> have "D = n_data n"
    by simp
  moreover have "read_file fs src = Inr (n_data n)"
    using walk_self [OF n(1) nlink] n(1) by (simp add: read_file_def)
  moreover have "read_file fs1 p = Inr D"
    using r N by (simp add: read_file_def w)
  ultimately show ?thesis
    by (simp add: s1 world_def)
qed

end
